theory Spec2Isabelle
  imports Complex_Main "HOL-Library.AList" "HOL-Library.Char_ord" "HOL-Library.List_Lexorder"
begin

section \<open>JavaScript values\<close>

text \<open>
  The values that flow through the client as \<^verbatim>\<open>any\<close>: parsed JSON bodies, the fields of an
  error, configuration objects. A plain object is the list of its own enumerable
  properties; what is proved about objects is about the value found under a key, not
  about the order of the keys. A number is given by its rational value; the rounding of
  a numeral to a double is left out. A configuration object is plain data: no key of it
  shadows a member of a built-in prototype. A parsed body is whatever the server sent.
\<close>

datatype jsval =
    JUndefined
  | JNull
  | JBool bool
  | JNum rat
  | JStr string
  | JArr "jsval list"
  | JObj "(string \<times> jsval) list"

text \<open>Truthiness, as tested by \<^verbatim>\<open>if (v)\<close>, \<^verbatim>\<open>v && w\<close> and \<^verbatim>\<open>v || w\<close>.\<close>

fun truthy :: "jsval \<Rightarrow> bool" where
  "truthy JUndefined = False"
| "truthy JNull = False"
| "truthy (JBool b) = b"
| "truthy (JNum n) = (n \<noteq> 0)"
| "truthy (JStr s) = (s \<noteq> [])"
| "truthy (JArr xs) = True"
| "truthy (JObj fs) = True"

text \<open>\<^verbatim>\<open>a || b\<close>\<close>

definition or_js :: "jsval \<Rightarrow> jsval \<Rightarrow> jsval" where
  "or_js a b = (if truthy a then a else b)"

definition nullish :: "jsval \<Rightarrow> bool" where
  "nullish v = (v = JUndefined \<or> v = JNull)"

text \<open>The decimal numeral of an array index, as a property key.\<close>

fun show_nat :: "nat \<Rightarrow> string" where
  "show_nat n =
     (if n < 10 then [''0123456789'' ! n]
      else show_nat (n div 10) @ [''0123456789'' ! (n mod 10)])"

text \<open>
  The own enumerable properties of a value, which \<^verbatim>\<open>{ ...v }\<close> copies: the properties of
  an object, the elements of an array and the characters of a string under their
  indices; a number, a boolean, \<^verbatim>\<open>null\<close> and \<^verbatim>\<open>undefined\<close> have none.
\<close>

fun own_props :: "jsval \<Rightarrow> (string \<times> jsval) list" where
  "own_props (JObj fs) = fs"
| "own_props (JArr xs) = zip (map show_nat [0..<length xs]) xs"
| "own_props (JStr s) = zip (map show_nat [0..<length s]) (map (\<lambda>c. JStr [c]) s)"
| "own_props v = []"

text \<open>
  \<^verbatim>\<open>v[key]\<close> for a value that is neither \<^verbatim>\<open>null\<close> nor \<^verbatim>\<open>undefined\<close> (on those the read
  throws a \<^verbatim>\<open>TypeError\<close>, which is the caller's branch): an own property, the \<^verbatim>\<open>length\<close> of
  an array or a string, and \<^verbatim>\<open>undefined\<close> otherwise.
\<close>

definition get_prop :: "jsval \<Rightarrow> string \<Rightarrow> jsval" where
  "get_prop v key =
     (case map_of (own_props v) key of
        Some x \<Rightarrow> x
      | None \<Rightarrow>
          if key = ''length'' then
            (case v of
               JArr xs \<Rightarrow> JNum (of_nat (length xs))
             | JStr s \<Rightarrow> JNum (of_nat (length s))
             | _ \<Rightarrow> JUndefined)
          else JUndefined)"

section \<open>Errors and results (api.ts, types)\<close>

text \<open>
  The interface \<^verbatim>\<open>ApiError\<close> and the class \<^verbatim>\<open>TimbalApiError\<close> carry the same four fields.
  In the plain object that \<^verbatim>\<open>parseErrorResponse\<close> returns, \<^verbatim>\<open>message\<close>, \<^verbatim>\<open>code\<close> and \<^verbatim>\<open>details\<close>
  are whatever the parsed body held; an omitted optional field is \<^verbatim>\<open>undefined\<close>. In a
  \<^verbatim>\<open>TimbalApiError\<close> the message is a string, since the constructor of \<^verbatim>\<open>Error\<close> converts
  its argument, while \<^verbatim>\<open>code\<close> and \<^verbatim>\<open>details\<close> are stored as they come.
\<close>

record ApiError =
  message :: jsval
  statusCode :: nat
  code :: jsval
  details :: jsval

text \<open>
  The \<^verbatim>\<open>TimbalApiError\<close> object with the fields given. The call of the constructor, with
  its conversion of the message, is \<open>new_TimbalApiError\<close> below.
\<close>

definition TimbalApiError :: "jsval \<Rightarrow> nat \<Rightarrow> jsval \<Rightarrow> jsval \<Rightarrow> ApiError" where
  "TimbalApiError m s c d = \<lparr>message = m, statusCode = s, code = c, details = d\<rparr>"

text \<open>
  Modelled from the spec: the table \<^verbatim>\<open>ERROR_CODES\<close> of the constants module, of which
  the dispatcher uses three entries; the spec names the codes \<^verbatim>\<open>TIMEOUT_ERROR\<close> and
  \<^verbatim>\<open>NETWORK_ERROR\<close>.
\<close>

definition TIMEOUT_ERROR :: string where
  "TIMEOUT_ERROR = ''TIMEOUT_ERROR''"

definition NETWORK_ERROR :: string where
  "NETWORK_ERROR = ''NETWORK_ERROR''"

definition SERVER_ERROR :: string where
  "SERVER_ERROR = ''SERVER_ERROR''"

text \<open>
  What a \<^verbatim>\<open>catch\<close> clause can receive, by the tests the handler of \<^verbatim>\<open>makeRequest\<close> applies
  in order: an \<^verbatim>\<open>Error\<close> named \<^verbatim>\<open>AbortError\<close> (the abort timer fired); a \<^verbatim>\<open>TypeError\<close> with its
  message (the transport failed); a \<^verbatim>\<open>TimbalApiError\<close>; a \<^verbatim>\<open>SyntaxError\<close> with its message
  (malformed JSON); any other value, given by its string conversion.
\<close>

datatype thrown =
    AbortError
  | TypeError string
  | Thrown_TimbalApiError ApiError
  | SyntaxError string
  | OtherThrown string

text \<open>\<^verbatim>\<open>`${error}`\<close> for the values that reach the last \<^verbatim>\<open>throw\<close> of the handler.\<close>

fun String_thrown :: "thrown \<Rightarrow> string" where
  "String_thrown (SyntaxError m) = (if m = [] then ''SyntaxError'' else ''SyntaxError: '' @ m)"
| "String_thrown (OtherThrown s) = s"
| "String_thrown AbortError = ''AbortError''"
| "String_thrown (TypeError m) = (if m = [] then ''TypeError'' else ''TypeError: '' @ m)"
| "String_thrown (Thrown_TimbalApiError e) = ''TimbalApiError''"

text \<open>
  A \<^verbatim>\<open>Response\<close>: its status, its status text, and what \<^verbatim>\<open>response.json()\<close> settles to
  (a parsed value, or the rejection).
\<close>

record Response =
  status :: nat
  statusText :: string
  json :: "thrown + jsval"

definition ok :: "Response \<Rightarrow> bool" where
  "ok response = (200 \<le> status response \<and> status response \<le> 299)"

record ApiResponse =
  data :: jsval
  success :: bool
  response_statusCode :: nat

text \<open>The typed configuration \<^verbatim>\<open>Required<TimbalConfig>\<close> that a dispatch reads.\<close>

record TimbalConfig =
  apiKey :: string
  baseUrl :: string
  timeout :: int
  retryAttempts :: int
  retryDelay :: int

section \<open>String conversion\<close>

text \<open>
  The numeral of a number: the decimal digits of the value without trailing zeros and
  the position \<open>n\<close> of the decimal point give plain digits, a decimal fraction or the
  exponent form, by the ranges of \<open>n\<close> that \<^verbatim>\<open>Number.prototype.toString\<close> uses.
  \<open>decimal_exponent p q 0\<close> is the least \<open>e\<close> for which \<open>p / q * 10 ^ e\<close> is an integer, when
  \<open>p / q\<close> has a finite decimal expansion, as every number of a JSON text has.
\<close>

function decimal_exponent :: "int \<Rightarrow> int \<Rightarrow> nat \<Rightarrow> nat" where
  "decimal_exponent p q e =
     (if (p * 10 ^ e) mod q = 0 \<or> q \<le> 2 ^ e then e else decimal_exponent p q (Suc e))"
  by pat_completeness auto
termination
  by (relation "measure (\<lambda>(p, q, e). nat q - 2 ^ e)") (auto simp: not_le intro!: diff_less_mono2)

function trailing_zeros :: "int \<Rightarrow> nat" where
  "trailing_zeros n =
     (if n \<le> 0 \<or> n mod 10 \<noteq> 0 then 0 else Suc (trailing_zeros (n div 10)))"
  by pat_completeness auto
termination
  by (relation "measure nat") auto

function decimal_digits :: "int \<Rightarrow> string" where
  "decimal_digits n =
     (if n < 10 then [''0123456789'' ! nat n]
      else decimal_digits (n div 10) @ [''0123456789'' ! nat (n mod 10)])"
  by pat_completeness auto
termination
  by (relation "measure nat") auto

definition Number_format :: "string \<Rightarrow> int \<Rightarrow> string" where
  "Number_format digits n =
     (let k = int (length digits) in
      if k \<le> n \<and> n \<le> 21 then digits @ replicate (nat (n - k)) CHR ''0''
      else if 0 < n \<and> n \<le> 21 then take (nat n) digits @ ''.'' @ drop (nat n) digits
      else if - 6 < n \<and> n \<le> 0 then ''0.'' @ replicate (nat (- n)) CHR ''0'' @ digits
      else
        (let exponent = (if n - 1 < 0 then ''-'' else ''+'') @ decimal_digits \<bar>n - 1\<bar>
         in if k = 1 then digits @ ''e'' @ exponent
            else take 1 digits @ ''.'' @ drop 1 digits @ ''e'' @ exponent))"

definition Number_toString :: "rat \<Rightarrow> string" where
  "Number_toString x =
     (if x = 0 then ''0''
      else
        (let (p, q) = quotient_of \<bar>x\<bar>;
             e = decimal_exponent p q 0;
             scaled = (p * 10 ^ e) div q;
             t = trailing_zeros scaled;
             digits = decimal_digits (scaled div 10 ^ t)
         in (if x < 0 then ''-'' else []) @
            Number_format digits (int (length digits) + int t - int e)))"

text \<open>
  The conversion of a value to a string, as the constructor of \<^verbatim>\<open>Error\<close> applies it to
  its argument. An array is the join of its elements with commas, \<^verbatim>\<open>null\<close> and
  \<^verbatim>\<open>undefined\<close> among them giving the empty string. An object is converted by its
  \<^verbatim>\<open>toString\<close> method: the inherited one gives \<^verbatim>\<open>[object Object]\<close>, but an own property
  named \<^verbatim>\<open>toString\<close> hides it, and in a parsed body such a property is never a function, so
  that the conversion throws a \<^verbatim>\<open>TypeError\<close> (\<^verbatim>\<open>valueOf\<close> returns no primitive value
  either). The text of that \<^verbatim>\<open>TypeError\<close> is the engine's.
\<close>

fun ToString :: "jsval \<Rightarrow> thrown + string"
  and join_elements :: "jsval list \<Rightarrow> thrown + string" where
  "ToString JUndefined = Inr ''undefined''"
| "ToString JNull = Inr ''null''"
| "ToString (JBool b) = Inr (if b then ''true'' else ''false'')"
| "ToString (JNum n) = Inr (Number_toString n)"
| "ToString (JStr s) = Inr s"
| "ToString (JArr xs) = join_elements xs"
| "ToString (JObj fs) =
     (if map_of fs ''toString'' \<noteq> None
      then Inl (TypeError ''Cannot convert object to primitive value'')
      else Inr ''[object Object]'')"
| "join_elements [] = Inr []"
| "join_elements (x # xs) =
     (case (if nullish x then Inr [] else ToString x) of
        Inl e \<Rightarrow> Inl e
      | Inr s \<Rightarrow>
          (case join_elements xs of
             Inl e \<Rightarrow> Inl e
           | Inr rest \<Rightarrow> Inr (if xs = [] then s else s @ '','' @ rest)))"

text \<open>
  \<^verbatim>\<open>new TimbalApiError(message, statusCode, code, details)\<close>: \<^verbatim>\<open>super(message)\<close> converts a
  message other than \<^verbatim>\<open>undefined\<close> to a string, which can throw; without a message the
  error has the empty message of \<^verbatim>\<open>Error.prototype\<close>.
\<close>

definition new_TimbalApiError :: "jsval \<Rightarrow> nat \<Rightarrow> jsval \<Rightarrow> jsval \<Rightarrow> thrown + ApiError" where
  "new_TimbalApiError m s c d =
     (if m = JUndefined then Inr (TimbalApiError (JStr []) s c d)
      else
        (case ToString m of
           Inl e \<Rightarrow> Inl e
         | Inr converted \<Rightarrow> Inr (TimbalApiError (JStr converted) s c d)))"

section \<open>Headers\<close>

text \<open>
  The platform class \<^verbatim>\<open>Headers\<close>: a list of name/value pairs whose names are compared
  ASCII-case-insensitively; names are kept in lower case. Appending to a name that is
  present joins the values with a comma and a space. The operations below are those
  of the class on names and values that it accepts, taken with no white space around a
  value; what it accepts is \<open>Headers_accepts\<close> at the end of this section.
\<close>

type_synonym Headers = "(string \<times> string) list"

definition ascii_lower :: "char \<Rightarrow> char" where
  "ascii_lower c =
     (case map_of (zip ''ABCDEFGHIJKLMNOPQRSTUVWXYZ'' ''abcdefghijklmnopqrstuvwxyz'') c of
        Some d \<Rightarrow> d
      | None \<Rightarrow> c)"

definition lower_name :: "string \<Rightarrow> string" where
  "lower_name n = map ascii_lower n"

definition Headers_get :: "Headers \<Rightarrow> string \<Rightarrow> string option" where
  "Headers_get hs n = map_of hs (lower_name n)"

definition Headers_has :: "Headers \<Rightarrow> string \<Rightarrow> bool" where
  "Headers_has hs n = (map_of hs (lower_name n) \<noteq> None)"

definition Headers_set :: "Headers \<Rightarrow> string \<Rightarrow> string \<Rightarrow> Headers" where
  "Headers_set hs n v = AList.update (lower_name n) v hs"

definition Headers_append :: "Headers \<Rightarrow> string \<Rightarrow> string \<Rightarrow> Headers" where
  "Headers_append hs n v =
     (case map_of hs (lower_name n) of
        None \<Rightarrow> hs @ [(lower_name n, v)]
      | Some old \<Rightarrow> AList.update (lower_name n) (old @ '', '' @ v) hs)"

text \<open>\<^verbatim>\<open>new Headers(init)\<close> for a record or a sequence of pairs.\<close>

definition new_Headers :: "(string \<times> string) list \<Rightarrow> Headers" where
  "new_Headers init = fold (\<lambda>(n, v) hs. Headers_append hs n v) init []"

text \<open>The pairs \<^verbatim>\<open>forEach\<close> visits: sorted by name.\<close>

definition Headers_entries :: "Headers \<Rightarrow> (string \<times> string) list" where
  "Headers_entries hs = sort_key fst hs"

text \<open>
  What the class accepts. A name is a non-empty token: letters, digits and the
  characters \<^verbatim>\<open>! # $ % & ' * + - . ^ _ ` | ~\<close>. A value is stripped of the white space (tab,
  line feed, carriage return, space) at its ends and then has no NUL, line feed or
  carriage return. For anything else \<^verbatim>\<open>new Headers(init)\<close>, \<^verbatim>\<open>append\<close> and \<^verbatim>\<open>set\<close> throw a
  \<^verbatim>\<open>TypeError\<close>.
\<close>

definition token_char :: "char \<Rightarrow> bool" where
  "token_char c =
     (let n = (of_char c :: nat) in
      n = 33 \<or> (35 \<le> n \<and> n \<le> 39) \<or> n = 42 \<or> n = 43 \<or> n = 45 \<or> n = 46
      \<or> (48 \<le> n \<and> n \<le> 57) \<or> (65 \<le> n \<and> n \<le> 90) \<or> (94 \<le> n \<and> n \<le> 122)
      \<or> n = 124 \<or> n = 126)"

definition header_name :: "string \<Rightarrow> bool" where
  "header_name n = (n \<noteq> [] \<and> list_all token_char n)"

definition http_whitespace :: "char \<Rightarrow> bool" where
  "http_whitespace c = (of_char c \<in> {9, 10, 13, 32 :: nat})"

definition normalize_value :: "string \<Rightarrow> string" where
  "normalize_value v = rev (dropWhile http_whitespace (rev (dropWhile http_whitespace v)))"

definition header_value :: "string \<Rightarrow> bool" where
  "header_value v = list_all (\<lambda>c. of_char c \<notin> {0, 10, 13 :: nat}) (normalize_value v)"

definition Headers_accepts :: "(string \<times> string) list \<Rightarrow> bool" where
  "Headers_accepts init = list_all (\<lambda>(n, v). header_name n \<and> header_value v) init"

section \<open>Requests\<close>

text \<open>
  The members of \<^verbatim>\<open>RequestInit\<close> the client uses. A body is a string, a \<^verbatim>\<open>FormData\<close> or a
  binary payload (\<^verbatim>\<open>File\<close>, \<^verbatim>\<open>Blob\<close>); only a string has \<^verbatim>\<open>typeof\<close> \<^verbatim>\<open>'string'\<close>, and every
  object is truthy. Caller headers are a \<^verbatim>\<open>Headers\<close> instance, given by the pairs it
  was filled with, or a record of strings.
\<close>

datatype BodyInit =
    BodyString string
  | BodyFormData "(string \<times> string) list"
  | BodyBinary "nat list"

datatype HeadersInit =
    HeadersInstance "(string \<times> string) list"
  | HeadersRecord "(string \<times> string) list"

record RequestInit =
  request_method :: "string option"
  body :: "BodyInit option"
  headers :: "HeadersInit option"

text \<open>\<^verbatim>\<open>options.body && typeof options.body === 'string'\<close>\<close>

fun truthy_string_body :: "BodyInit option \<Rightarrow> bool" where
  "truthy_string_body (Some (BodyString s)) = (s \<noteq> [])"
| "truthy_string_body _ = False"

text \<open>One call of \<^verbatim>\<open>fetch\<close>, with the delay of the abort timer armed for it.\<close>

record FetchCall =
  fetch_url :: string
  fetch_method :: "string option"
  fetch_headers :: Headers
  fetch_body :: "BodyInit option"
  abort_after :: int

text \<open>The effects of a dispatch, in order: calls of \<^verbatim>\<open>fetch\<close> and of \<^verbatim>\<open>sleep\<close>.\<close>

datatype event = Fetch FetchCall | Sleep int

section \<open>The dispatcher (api.ts)\<close>

definition build_url :: "TimbalConfig \<Rightarrow> string \<Rightarrow> string" where
  "build_url config endpoint =
     (let base = (if baseUrl config \<noteq> [] \<and> last (baseUrl config) = CHR ''/''
                  then butlast (baseUrl config) else baseUrl config);
          path = (if endpoint \<noteq> [] \<and> hd endpoint = CHR ''/'' then endpoint
                  else ''/'' @ endpoint)
      in base @ path)"

definition build_headers :: "TimbalConfig \<Rightarrow> RequestInit \<Rightarrow> Headers" where
  "build_headers config options =
     (let headers0 = new_Headers [(''Authorization'', ''Bearer '' @ apiKey config)];
          headers1 =
            (case headers options of
               None \<Rightarrow> headers0
             | Some h \<Rightarrow>
                 (let optHeaders = (case h of HeadersInstance ps \<Rightarrow> new_Headers ps
                                            | HeadersRecord ps \<Rightarrow> new_Headers ps)
                  in fold (\<lambda>(key, value) hs. Headers_set hs key value)
                       (Headers_entries optHeaders) headers0))
      in if truthy_string_body (body options) \<and> \<not> Headers_has headers1 ''Content-Type''
         then Headers_set headers1 ''Content-Type'' ''application/json''
         else headers1)"

definition build_call :: "TimbalConfig \<Rightarrow> string \<Rightarrow> RequestInit \<Rightarrow> FetchCall" where
  "build_call config endpoint options =
     \<lparr>fetch_url = build_url config endpoint,
      fetch_method = request_method options,
      fetch_headers = build_headers config options,
      fetch_body = body options,
      abort_after = timeout config\<rparr>"

text \<open>
  \<^verbatim>\<open>parseErrorResponse\<close>. The \<^verbatim>\<open>catch\<close> branch serves every failure of the \<^verbatim>\<open>try\<close> block:
  a rejection of \<^verbatim>\<open>response.json()\<close>, and the \<^verbatim>\<open>TypeError\<close> of reading a property of
  \<^verbatim>\<open>null\<close>.
\<close>

definition parseErrorResponse :: "Response \<Rightarrow> ApiError" where
  "parseErrorResponse response =
     (let fallback =
            \<lparr>message = or_js (JStr (statusText response)) (JStr ''Unknown error''),
             statusCode = status response,
             code = JUndefined,
             details = JUndefined\<rparr>
      in case json response of
           Inl e \<Rightarrow> fallback
         | Inr errorData \<Rightarrow>
             if nullish errorData then fallback
             else
               \<lparr>message = or_js (or_js (get_prop errorData ''message'') (get_prop errorData ''error''))
                            (JStr ''Unknown error''),
                statusCode = status response,
                code = get_prop errorData ''code'',
                details = get_prop errorData ''details''\<rparr>)"

text \<open>
  The \<^verbatim>\<open>try\<close> block of \<^verbatim>\<open>makeRequest\<close>, given what \<^verbatim>\<open>fetch\<close> settled to: a value to return
  or a value thrown into the handler. For a response that is not ok the value thrown is
  the \<^verbatim>\<open>TimbalApiError\<close>, or what its constructor threw.
\<close>

definition attempt :: "thrown + Response \<Rightarrow> thrown + ApiResponse" where
  "attempt fetched =
     (case fetched of
        Inl e \<Rightarrow> Inl e
      | Inr response \<Rightarrow>
          if \<not> ok response then
            (let errorData = parseErrorResponse response
             in case new_TimbalApiError (or_js (message errorData) (JStr ''Request failed''))
                       (status response) (code errorData) (details errorData) of
                  Inl e \<Rightarrow> Inl e
                | Inr error \<Rightarrow> Inl (Thrown_TimbalApiError error))
          else
            (case json response of
               Inl e \<Rightarrow> Inl e
             | Inr d \<Rightarrow> Inr \<lparr>data = d, success = True, response_statusCode = status response\<rparr>))"

text \<open>\<^verbatim>\<open>await sleep(ms); return this.makeRequest(...)\<close>: the events so far come first.\<close>

definition after :: "event list \<Rightarrow> event list \<times> 'a \<Rightarrow> event list \<times> 'a" where
  "after evs r = (evs @ fst r, snd r)"

text \<open>
  \<^verbatim>\<open>makeRequest\<close>, for a request whose headers the platform accepts. The transport is the
  function \<open>fetch\<close>: what the call of \<^verbatim>\<open>fetch\<close> made with retry counter \<open>n\<close> settles to. The
  result is the list of effects and the value returned (\<open>Inr\<close>) or thrown (\<open>Inl\<close>). The
  messages the handler gives to the constructor of \<^verbatim>\<open>TimbalApiError\<close> are strings, which
  the constructor stores as they are.
\<close>

function makeRequest ::
  "TimbalConfig \<Rightarrow> (nat \<Rightarrow> thrown + Response) \<Rightarrow> string \<Rightarrow> RequestInit \<Rightarrow> nat
     \<Rightarrow> event list \<times> (thrown + ApiResponse)" where
  "makeRequest config fetch endpoint options retryCount =
     (let call = build_call config endpoint options in
      case attempt (fetch retryCount) of
        Inr r \<Rightarrow> ([Fetch call], Inr r)
      | Inl error \<Rightarrow>
          (case error of
             AbortError \<Rightarrow>
               if int retryCount < retryAttempts config then
                 after [Fetch call, Sleep (retryDelay config * (int retryCount + 1))]
                   (makeRequest config fetch endpoint options (retryCount + 1))
               else ([Fetch call], Inl (Thrown_TimbalApiError
                      (TimbalApiError (JStr ''Request timeout'') 0 (JStr TIMEOUT_ERROR) JUndefined)))
           | TypeError m \<Rightarrow>
               if int retryCount < retryAttempts config then
                 after [Fetch call, Sleep (retryDelay config * (int retryCount + 1))]
                   (makeRequest config fetch endpoint options (retryCount + 1))
               else ([Fetch call], Inl (Thrown_TimbalApiError
                      (TimbalApiError (JStr (''Network error: '' @ m)) 0 (JStr NETWORK_ERROR) JUndefined)))
           | Thrown_TimbalApiError e \<Rightarrow>
               if statusCode e \<ge> 500 \<and> int retryCount < retryAttempts config then
                 after [Fetch call, Sleep (retryDelay config * (int retryCount + 1))]
                   (makeRequest config fetch endpoint options (retryCount + 1))
               else ([Fetch call], Inl (Thrown_TimbalApiError e))
           | _ \<Rightarrow> ([Fetch call], Inl (Thrown_TimbalApiError
                      (TimbalApiError (JStr (''Unknown error occurred: '' @ String_thrown error)) 0
                         (JStr SERVER_ERROR) JUndefined)))))"
  by pat_completeness auto
termination
  by (relation "measure (\<lambda>(config, fetch, endpoint, options, retryCount).
        nat (retryAttempts config - int retryCount))") auto

text \<open>The public entry \<^verbatim>\<open>request\<close>: a dispatch starts with the retry counter at 0.\<close>

definition request ::
  "TimbalConfig \<Rightarrow> (nat \<Rightarrow> thrown + Response) \<Rightarrow> string \<Rightarrow> RequestInit
     \<Rightarrow> event list \<times> (thrown + ApiResponse)" where
  "request config fetch endpoint options = makeRequest config fetch endpoint options 0"

text \<open>
  The statements of \<^verbatim>\<open>makeRequest\<close> that build the URL and the headers stand before its
  \<^verbatim>\<open>try\<close> block. \<^verbatim>\<open>new Headers({'Authorization': ...})\<close> throws for a value that the
  class does not accept, and \<^verbatim>\<open>new Headers(options.headers)\<close> for a record with such a
  name or value; a \<^verbatim>\<open>Headers\<close> instance of the caller holds accepted pairs only, and so do
  the calls of \<^verbatim>\<open>set\<close> that follow.
\<close>

definition headers_accepted :: "TimbalConfig \<Rightarrow> RequestInit \<Rightarrow> bool" where
  "headers_accepted config options =
     (Headers_accepts [(''Authorization'', ''Bearer '' @ apiKey config)]
      \<and> (case headers options of
           Some (HeadersRecord ps) \<Rightarrow> Headers_accepts ps
         | _ \<Rightarrow> True))"

text \<open>
  A call of \<^verbatim>\<open>request\<close> as a whole, the dispatch of the specification: the \<^verbatim>\<open>TypeError\<close> of
  the class \<^verbatim>\<open>Headers\<close> is thrown before anything is fetched and outside the \<^verbatim>\<open>try\<close> block,
  so that it leaves \<^verbatim>\<open>makeRequest\<close> as it is. The text of its message is the platform's.
\<close>

definition dispatch ::
  "TimbalConfig \<Rightarrow> (nat \<Rightarrow> thrown + Response) \<Rightarrow> string \<Rightarrow> RequestInit
     \<Rightarrow> event list \<times> (thrown + ApiResponse)" where
  "dispatch config fetch endpoint options =
     (if headers_accepted config options then request config fetch endpoint options
      else ([], Inl (TypeError ''Invalid header'')))"

text \<open>
  The convenience methods for multipart, binary and text bodies. \<^verbatim>\<open>postFile\<close> adds a
  \<^verbatim>\<open>Content-Type\<close> only for a truthy \<open>contentType\<close>; the \<open>contentType\<close> of \<^verbatim>\<open>postText\<close>
  defaults to \<^verbatim>\<open>text/plain\<close>.
\<close>

definition postFormData ::
  "TimbalConfig \<Rightarrow> (nat \<Rightarrow> thrown + Response) \<Rightarrow> string \<Rightarrow> (string \<times> string) list
     \<Rightarrow> event list \<times> (thrown + ApiResponse)" where
  "postFormData config fetch endpoint formData =
     makeRequest config fetch endpoint
       \<lparr>request_method = Some ''POST'', body = Some (BodyFormData formData), headers = None\<rparr> 0"

definition postFile ::
  "TimbalConfig \<Rightarrow> (nat \<Rightarrow> thrown + Response) \<Rightarrow> string \<Rightarrow> nat list \<Rightarrow> string option
     \<Rightarrow> event list \<times> (thrown + ApiResponse)" where
  "postFile config fetch endpoint file contentType =
     makeRequest config fetch endpoint
       \<lparr>request_method = Some ''POST'', body = Some (BodyBinary file),
        headers = Some (HeadersRecord
          (case contentType of
             Some t \<Rightarrow> if t \<noteq> [] then [(''Content-Type'', t)] else []
           | None \<Rightarrow> []))\<rparr> 0"

definition postText ::
  "TimbalConfig \<Rightarrow> (nat \<Rightarrow> thrown + Response) \<Rightarrow> string \<Rightarrow> string \<Rightarrow> string option
     \<Rightarrow> event list \<times> (thrown + ApiResponse)" where
  "postText config fetch endpoint text contentType =
     makeRequest config fetch endpoint
       \<lparr>request_method = Some ''POST'', body = Some (BodyString text),
        headers = Some (HeadersRecord
          [(''Content-Type'', case contentType of Some t \<Rightarrow> t | None \<Rightarrow> ''text/plain'')])\<rparr> 0"

section \<open>The configuration merge (utils/index.ts)\<close>

text \<open>
  \<^verbatim>\<open>deepMerge(target, source)\<close>. \<open>source\<close> is an object, given by its properties.
  \<open>deepMerge_keys\<close> is the \<^verbatim>\<open>forEach\<close> over \<^verbatim>\<open>Object.keys(source)\<close>, with \<open>result\<close> the object
  built so far; an assignment \<^verbatim>\<open>result[key] = v\<close> replaces the property or adds it at the
  end. Reading \<^verbatim>\<open>target[key]\<close> throws when \<open>target\<close> is \<^verbatim>\<open>null\<close> or \<^verbatim>\<open>undefined\<close>.
\<close>

function deepMerge_keys ::
  "jsval \<Rightarrow> (string \<times> jsval) list \<Rightarrow> string list \<Rightarrow> (string \<times> jsval) list
     \<Rightarrow> thrown + jsval" where
  "deepMerge_keys target source [] result = Inr (JObj result)"
| "deepMerge_keys target source (key # keys) result =
     (if nullish target then Inl (TypeError ''Cannot read properties of null or undefined'')
      else
        (let sourceValue = get_prop (JObj source) key;
             targetValue = get_prop target key
         in case sourceValue of
              JObj fs \<Rightarrow>
                (case deepMerge_keys (or_js targetValue (JObj [])) fs (map fst fs)
                        (own_props (or_js targetValue (JObj []))) of
                   Inl e \<Rightarrow> Inl e
                 | Inr merged \<Rightarrow>
                     deepMerge_keys target source keys (AList.update key merged result))
            | _ \<Rightarrow> deepMerge_keys target source keys (AList.update key sourceValue result)))"
  by pat_completeness auto
termination
proof (relation "measures
        [\<lambda>(target, source, keys, result). size_list (size_prod (\<lambda>_. 0) size) source,
         \<lambda>(target, source, keys, result). length keys]", goal_cases)
  case (8 target source key keys result sourceValue targetValue fs)
  have "map_of source key = Some (JObj fs)"
    using 8(2,4) by (auto simp: get_prop_def split: option.splits if_splits)
  then have "(key, JObj fs) \<in> set source"
    by (rule map_of_SomeD)
  then have "size (JObj fs) < size_list (size_prod (\<lambda>_. 0) size) source"
    by (rule size_list_estimation) simp
  then show ?case by simp
qed auto

definition deepMerge :: "jsval \<Rightarrow> (string \<times> jsval) list \<Rightarrow> thrown + jsval" where
  "deepMerge target source = deepMerge_keys target source (map fst source) (own_props target)"

text \<open>
  The client's configuration as a value. The constructor merges the caller's
  configuration into \<^verbatim>\<open>DEFAULT_CONFIG\<close>, an object of the constants module that is taken
  as a parameter; \<^verbatim>\<open>updateConfig\<close> merges into the stored configuration.
\<close>

record ApiClient =
  config :: jsval

definition new_ApiClient :: "jsval \<Rightarrow> (string \<times> jsval) list \<Rightarrow> thrown + ApiClient" where
  "new_ApiClient DEFAULT_CONFIG cfg =
     (case deepMerge DEFAULT_CONFIG cfg of
        Inl e \<Rightarrow> Inl e
      | Inr merged \<Rightarrow> Inr \<lparr>config = merged\<rparr>)"

definition updateConfig :: "ApiClient \<Rightarrow> (string \<times> jsval) list \<Rightarrow> thrown + ApiClient" where
  "updateConfig this newConfig =
     (case deepMerge (config this) newConfig of
        Inl e \<Rightarrow> Inl e
      | Inr merged \<Rightarrow> Inr (this\<lparr>config := merged\<rparr>))"

section \<open>Reading the configuration: objects in a store\<close>

text \<open>
  Whether \<^verbatim>\<open>getConfig\<close> hands out the stored object or a copy is a matter of object
  identity, so here objects live in a store: the object at address \<open>a\<close> is \<open>h ! a\<close>, a
  property holds a primitive value or the address of another object, and a new object
  takes the next free address. The spread copies a property that refers to an object as
  the reference. By its type \<^verbatim>\<open>Required<TimbalConfig>\<close> the configuration has string and
  number properties only, but the merge stores whatever object an update holds.
\<close>

type_synonym addr = nat

datatype ref_val =
    VUndefined
  | VNull
  | VBool bool
  | VNum rat
  | VStr string
  | VRef addr

type_synonym heap = "(string \<times> ref_val) list list"

record ApiClient_obj =
  config_ref :: addr

text \<open>\<^verbatim>\<open>return { ...this.config }\<close>: a new object with the own properties of the stored one.\<close>

definition getConfig :: "heap \<Rightarrow> ApiClient_obj \<Rightarrow> addr \<times> heap" where
  "getConfig h this = (length h, h @ [h ! config_ref this])"

text \<open>
  What a caller can do to an object it holds: assign a property (\<^verbatim>\<open>o[k] = v\<close>) or delete
  one (\<^verbatim>\<open>delete o[k]\<close>).
\<close>

datatype mutation = SetProp string ref_val | DeleteProp string

fun mutate :: "addr \<Rightarrow> mutation \<Rightarrow> heap \<Rightarrow> heap" where
  "mutate a (SetProp k v) h = h[a := AList.update k v (h ! a)]"
| "mutate a (DeleteProp k) h = h[a := AList.delete k (h ! a)]"

text \<open>
  The object that \<^verbatim>\<open>o.p1.p2...\<close> denotes, when every step reads a property that refers to
  an object; and the assignment \<^verbatim>\<open>o.p1.p2... .k = v\<close>, which has a target only then.
\<close>

fun follow :: "heap \<Rightarrow> addr \<Rightarrow> string list \<Rightarrow> addr option" where
  "follow h a [] = (if a < length h then Some a else None)"
| "follow h a (p # ps) =
     (if a < length h then
        (case map_of (h ! a) p of
           Some (VRef b) \<Rightarrow> follow h b ps
         | _ \<Rightarrow> None)
      else None)"

definition assign_through :: "heap \<Rightarrow> addr \<Rightarrow> string list \<Rightarrow> string \<Rightarrow> ref_val \<Rightarrow> heap option" where
  "assign_through h a path k v =
     (case follow h a path of
        Some b \<Rightarrow> Some (mutate b (SetProp k v) h)
      | None \<Rightarrow> None)"

text \<open>
  The value of an object as a tree, which is what structural equality compares and what
  a dispatch reads of the configuration: references are followed, to the given depth.
\<close>

fun deep_value :: "nat \<Rightarrow> heap \<Rightarrow> ref_val \<Rightarrow> jsval" where
  "deep_value n h VUndefined = JUndefined"
| "deep_value n h VNull = JNull"
| "deep_value n h (VBool b) = JBool b"
| "deep_value n h (VNum x) = JNum x"
| "deep_value n h (VStr s) = JStr s"
| "deep_value 0 h (VRef a) = JUndefined"
| "deep_value (Suc n) h (VRef a) =
     (if a < length h then JObj (map (\<lambda>p. (fst p, deep_value n h (snd p))) (h ! a))
      else JUndefined)"

section \<open>Notions of the specification\<close>

text \<open>
  The retryable kinds of failure in the specification's words: Timeout (the cancellation
  signal fired), Network (the transport failed), Server (a classified error with status
  500 or more).
\<close>

definition retryable_kind :: "thrown \<Rightarrow> bool" where
  "retryable_kind e =
     (case e of
        AbortError \<Rightarrow> True
      | TypeError m \<Rightarrow> True
      | Thrown_TimbalApiError a \<Rightarrow> 500 \<le> statusCode a
      | _ \<Rightarrow> False)"

text \<open>An attempt ends in a retryable failure when its \<^verbatim>\<open>try\<close> block throws one.\<close>

definition retryable_failure :: "thrown + Response \<Rightarrow> bool" where
  "retryable_failure fetched =
     (case attempt fetched of Inl e \<Rightarrow> retryable_kind e | Inr r \<Rightarrow> False)"

text \<open>The attempts of a dispatch are its calls of \<^verbatim>\<open>fetch\<close>.\<close>

fun is_Fetch :: "event \<Rightarrow> bool" where
  "is_Fetch (Fetch c) = True"
| "is_Fetch (Sleep d) = False"

definition attempts :: "event list \<times> 'a \<Rightarrow> nat" where
  "attempts r = length (filter is_Fetch (fst r))"

text \<open>
  The classified error constructed for a response that is not ok (\<^verbatim>\<open>makeRequest\<close>, first
  branch), when its constructor returns.
\<close>

definition response_error :: "Response \<Rightarrow> thrown + ApiError" where
  "response_error response =
     new_TimbalApiError (or_js (message (parseErrorResponse response)) (JStr ''Request failed''))
       (status response) (code (parseErrorResponse response))
       (details (parseErrorResponse response))"

text \<open>The headers the caller supplied, as the \<^verbatim>\<open>Headers\<close> object the dispatcher reads.\<close>

definition supplied_headers :: "RequestInit \<Rightarrow> Headers" where
  "supplied_headers options =
     (case headers options of
        None \<Rightarrow> []
      | Some (HeadersInstance ps) \<Rightarrow> new_Headers ps
      | Some (HeadersRecord ps) \<Rightarrow> new_Headers ps)"

text \<open>The value \<^verbatim>\<open>deepMerge\<close> stores under a key of the source.\<close>

definition merged_property :: "jsval \<Rightarrow> (string \<times> jsval) list \<Rightarrow> string \<Rightarrow> jsval" where
  "merged_property target source key =
     (case get_prop (JObj source) key of
        JObj fs \<Rightarrow>
          (case deepMerge (or_js (get_prop target key) (JObj [])) fs of
             Inr merged \<Rightarrow> merged
           | Inl e \<Rightarrow> JUndefined)
      | sourceValue \<Rightarrow> sourceValue)"

section \<open>Concrete inputs\<close>

text \<open>A configuration with two retries and a base delay of 100 ms, and a plain request.\<close>

definition example_config :: TimbalConfig where
  "example_config =
     \<lparr>apiKey = ''secret'', baseUrl = ''https://api.timbal.ai/'', timeout = 30000,
      retryAttempts = 2, retryDelay = 100\<rparr>"

definition example_options :: RequestInit where
  "example_options = \<lparr>request_method = Some ''GET'', body = None, headers = None\<rparr>"

definition example_ok :: Response where
  "example_ok = \<lparr>status = 200, statusText = ''OK'', json = Inr (JObj [(''count'', JNum 5)])\<rparr>"

definition example_404 :: Response where
  "example_404 =
     \<lparr>status = 404, statusText = ''Not Found'',
      json = Inr (JObj [(''message'', JStr ''No such table''), (''code'', JStr ''NOT_FOUND'')])\<rparr>"

definition example_503 :: "string \<Rightarrow> Response" where
  "example_503 m =
     \<lparr>status = 503, statusText = ''Service Unavailable'', json = Inr (JObj [(''message'', JStr m)])\<rparr>"

definition example_bad_json :: Response where
  "example_bad_json =
     \<lparr>status = 200, statusText = ''OK'', json = Inl (SyntaxError ''Unexpected token <'')\<rparr>"

definition example_post :: RequestInit where
  "example_post =
     \<lparr>request_method = Some ''POST'', body = Some (BodyString ''SELECT 1''),
      headers = Some (HeadersRecord [(''authorization'', ''Basic abc''), (''X-Trace'', ''1'')])\<rparr>"

definition example_upload :: RequestInit where
  "example_upload =
     \<lparr>request_method = Some ''POST'', body = Some (BodyFormData [(''file'', ''data'')]),
      headers = None\<rparr>"

definition example_empty_body :: RequestInit where
  "example_empty_body =
     \<lparr>request_method = Some ''POST'', body = Some (BodyString []), headers = None\<rparr>"

text \<open>
  Error responses whose body has a \<^verbatim>\<open>message\<close> that cannot be converted to a string:
  the JSON text \<^verbatim>\<open>{"message": {"toString": 1}}\<close>.
\<close>

definition example_unconvertible :: "nat \<Rightarrow> Response" where
  "example_unconvertible s =
     \<lparr>status = s, statusText = ''Error'',
      json = Inr (JObj [(''message'', JObj [(''toString'', JNum 1)])])\<rparr>"

text \<open>A request with a header name that has a space in it.\<close>

definition example_bad_header :: RequestInit where
  "example_bad_header =
     \<lparr>request_method = Some ''GET'', body = None,
      headers = Some (HeadersRecord [(''X Trace'', ''1'')])\<rparr>"

text \<open>A configuration with a nested object, and an update of it.\<close>

definition example_target :: jsval where
  "example_target =
     JObj [(''apiKey'', JStr ''k''), (''timeout'', JNum 30000),
           (''retry'', JObj [(''attempts'', JNum 3), (''delay'', JNum 1000)])]"

definition example_update :: "(string \<times> jsval) list" where
  "example_update =
     [(''timeout'', JNum 15000), (''retry'', JObj [(''delay'', JNum 50)]),
      (''tags'', JArr [JStr ''a''])]"

text \<open>A store holding one configuration object, and the client that refers to it.\<close>

definition example_heap :: heap where
  "example_heap = [[(''apiKey'', VStr ''k''), (''timeout'', VNum 30000)]]"

definition example_client :: ApiClient_obj where
  "example_client = \<lparr>config_ref = 0\<rparr>"

text \<open>
  A store in which the configuration has a nested object, as \<^verbatim>\<open>updateConfig\<close> stores it
  for the update above.
\<close>

definition example_nested_heap :: heap where
  "example_nested_heap =
     [[(''apiKey'', VStr ''k''), (''retry'', VRef 1)],
      [(''attempts'', VNum 3), (''delay'', VNum 50)]]"

section \<open>Properties\<close>

subsection \<open>One step of the dispatcher\<close>

declare makeRequest.simps [simp del]

declare decimal_exponent.simps [simp del]

declare trailing_zeros.simps [simp del]

declare decimal_digits.simps [simp del]

lemma makeRequest_retry:
  "retryable_failure (fetch k) \<Longrightarrow> int k < retryAttempts cfg \<Longrightarrow>
   makeRequest cfg fetch endpoint options k =
     after [Fetch (build_call cfg endpoint options), Sleep (retryDelay cfg * (int k + 1))]
       (makeRequest cfg fetch endpoint options (Suc k))"
  by (subst makeRequest.simps)
     (simp add: retryable_failure_def retryable_kind_def split: sum.splits thrown.splits)

lemma makeRequest_stop:
  "\<not> (retryable_failure (fetch k) \<and> int k < retryAttempts cfg) \<Longrightarrow>
   fst (makeRequest cfg fetch endpoint options k) = [Fetch (build_call cfg endpoint options)]"
  by (subst makeRequest.simps)
     (auto simp add: retryable_failure_def retryable_kind_def Let_def
           split: sum.splits thrown.splits)

lemma attempts_after:
  "attempts (after evs r) = length (filter is_Fetch evs) + attempts r"
  by (simp add: attempts_def after_def)

lemma attempts_retry:
  "retryable_failure (fetch k) \<Longrightarrow> int k < retryAttempts cfg \<Longrightarrow>
   attempts (makeRequest cfg fetch endpoint options k) =
     Suc (attempts (makeRequest cfg fetch endpoint options (Suc k)))"
  by (simp add: makeRequest_retry attempts_after)

lemma attempts_stop:
  "\<not> (retryable_failure (fetch k) \<and> int k < retryAttempts cfg) \<Longrightarrow>
   attempts (makeRequest cfg fetch endpoint options k) = 1"
  by (simp add: makeRequest_stop attempts_def)

text \<open>
  The conversion of a message throws nothing but the \<^verbatim>\<open>TypeError\<close>, and the constructor of
  the error for a response throws nothing else.
\<close>

lemma ToString_throws:
  "ToString v = Inl e \<longrightarrow> e = TypeError ''Cannot convert object to primitive value''"
  "join_elements xs = Inl e \<longrightarrow> e = TypeError ''Cannot convert object to primitive value''"
  by (induction v and xs rule: ToString_join_elements.induct)
     (auto split: sum.splits if_splits)

lemma new_TimbalApiError_string:
  "new_TimbalApiError (JStr m) s c d = Inr (TimbalApiError (JStr m) s c d)"
  by (simp add: new_TimbalApiError_def)

lemma response_error_thrown:
  "response_error response = Inl e \<Longrightarrow>
   e = TypeError ''Cannot convert object to primitive value''"
  using ToString_throws(1)
  by (auto simp: response_error_def new_TimbalApiError_def split: if_splits sum.splits)

lemma parseErrorResponse_message_truthy:
  "truthy (message (parseErrorResponse response))"
  by (auto simp: parseErrorResponse_def or_js_def Let_def split: sum.splits)

lemma response_error_fields:
  assumes "response_error response = Inr error"
  shows "\<exists>m. ToString (message (parseErrorResponse response)) = Inr m
           \<and> error = TimbalApiError (JStr m) (status response)
                 (code (parseErrorResponse response)) (details (parseErrorResponse response))"
proof -
  let ?m = "message (parseErrorResponse response)"
  have t: "truthy ?m" by (rule parseErrorResponse_message_truthy)
  then have "?m \<noteq> JUndefined" by auto
  with assms t show ?thesis
    by (auto simp: response_error_def new_TimbalApiError_def or_js_def split: sum.splits)
qed

lemma response_error_statusCode:
  "response_error response = Inr error \<Longrightarrow> statusCode error = status response"
  by (auto dest: response_error_fields simp: TimbalApiError_def)

lemma response_error_string:
  assumes "message (parseErrorResponse response) = JStr m"
  shows "response_error response =
           Inr (TimbalApiError (JStr m) (status response)
                 (code (parseErrorResponse response)) (details (parseErrorResponse response)))"
  using assms parseErrorResponse_message_truthy[of response]
  by (simp add: response_error_def or_js_def new_TimbalApiError_string)

text \<open>
  Which attempts fail retryably, in terms of what \<^verbatim>\<open>fetch\<close> settled to: a rejection of a
  retryable kind; a response that is not ok with status 500 or more, or one for which the
  constructor of the error throws; an ok response whose body read is rejected with a
  retryable kind.
\<close>

lemma retryable_failure_thrown:
  "retryable_failure (Inl e) = retryable_kind e"
  by (simp add: retryable_failure_def attempt_def)

lemma attempt_not_ok:
  "\<not> ok response \<Longrightarrow>
   attempt (Inr response) =
     (case response_error response of
        Inl e \<Rightarrow> Inl e
      | Inr error \<Rightarrow> Inl (Thrown_TimbalApiError error))"
  by (simp add: attempt_def response_error_def Let_def)

lemma retryable_failure_response:
  "retryable_failure (Inr response) =
     (if ok response then (case json response of Inl e \<Rightarrow> retryable_kind e | Inr d \<Rightarrow> False)
      else (case response_error response of Inl e \<Rightarrow> True | Inr error \<Rightarrow> 500 \<le> status response))"
proof (cases "ok response")
  case True
  then show ?thesis
    by (simp add: retryable_failure_def attempt_def split: sum.splits)
next
  case False
  show ?thesis
  proof (cases "response_error response")
    case (Inl e)
    then have "e = TypeError ''Cannot convert object to primitive value''"
      by (rule response_error_thrown)
    with Inl False show ?thesis
      by (simp add: retryable_failure_def attempt_not_ok retryable_kind_def)
  next
    case (Inr error)
    with False show ?thesis
      by (simp add: retryable_failure_def attempt_not_ok retryable_kind_def
            response_error_statusCode)
  qed
qed

subsection \<open>Counting attempts\<close>

lemma attempts_until:
  "\<forall>i. k \<le> i \<and> i < k + d \<longrightarrow> retryable_failure (fetch i) \<Longrightarrow>
   \<not> retryable_failure (fetch (k + d)) \<Longrightarrow>
   attempts (makeRequest cfg fetch endpoint options k) =
     1 + min d (nat (retryAttempts cfg - int k))"
proof (induction d arbitrary: k)
  case 0
  then show ?case by (simp add: attempts_stop)
next
  case (Suc d)
  have r: "retryable_failure (fetch k)" using Suc.prems(1) by simp
  show ?case
  proof (cases "int k < retryAttempts cfg")
    case True
    have "attempts (makeRequest cfg fetch endpoint options (Suc k)) =
            1 + min d (nat (retryAttempts cfg - int (Suc k)))"
      using Suc.prems by (intro Suc.IH) auto
    with True r show ?thesis by (simp add: attempts_retry)
  next
    case False
    then show ?thesis by (simp add: attempts_stop)
  qed
qed


lemma trace_shape:
  "fst (makeRequest cfg fetch endpoint options k) =
     Fetch (build_call cfg endpoint options) #
     concat (map (\<lambda>n. [Sleep (retryDelay cfg * int n), Fetch (build_call cfg endpoint options)])
               [Suc k..<k + attempts (makeRequest cfg fetch endpoint options k)])"
proof (induction "nat (retryAttempts cfg - int k)" arbitrary: k)
  case 0
  then show ?case by (simp add: attempts_stop makeRequest_stop)
next
  case (Suc m)
  let ?c = "build_call cfg endpoint options"
  let ?f = "\<lambda>n. [Sleep (retryDelay cfg * int n), Fetch ?c]"
  let ?a = "attempts (makeRequest cfg fetch endpoint options (Suc k))"
  show ?case
  proof (cases "retryable_failure (fetch k)")
    case True
    have lt: "int k < retryAttempts cfg" using Suc.hyps(2) by linarith
    have ih: "fst (makeRequest cfg fetch endpoint options (Suc k)) =
                Fetch ?c # concat (map ?f [Suc (Suc k)..<Suc k + ?a])"
      using Suc.hyps(2) by (intro Suc.hyps(1)) auto
    have pos: "0 < ?a"
      by (subst attempts_def, subst ih) simp
    have att: "attempts (makeRequest cfg fetch endpoint options k) = Suc ?a"
      using True lt by (rule attempts_retry)
    have "fst (makeRequest cfg fetch endpoint options k) =
            Fetch ?c # Sleep (retryDelay cfg * (int k + 1)) #
            fst (makeRequest cfg fetch endpoint options (Suc k))"
      using True lt by (simp add: makeRequest_retry after_def)
    also have "\<dots> = Fetch ?c # ?f (Suc k) @ concat (map ?f [Suc (Suc k)..<Suc k + ?a])"
      by (subst ih) (simp add: algebra_simps)
    also have "\<dots> = Fetch ?c # concat (map ?f [Suc k..<k + Suc ?a])"
      using pos by (simp add: upt_conv_Cons)
    finally show ?thesis by (simp only: att)
  next
    case False
    then show ?thesis by (simp add: attempts_stop makeRequest_stop)
  qed
qed

lemma fetch_calls:
  "Fetch c \<in> set (fst (makeRequest cfg fetch endpoint options k)) \<Longrightarrow>
   c = build_call cfg endpoint options"
  by (subst (asm) trace_shape) auto

subsection \<open>How a dispatch ends\<close>

lemma makeRequest_success:
  "attempt (fetch k) = Inr r \<Longrightarrow>
   makeRequest cfg fetch endpoint options k = ([Fetch (build_call cfg endpoint options)], Inr r)"
  by (subst makeRequest.simps) simp

lemma makeRequest_timeout:
  "attempt (fetch k) = Inl AbortError \<Longrightarrow> \<not> int k < retryAttempts cfg \<Longrightarrow>
   makeRequest cfg fetch endpoint options k =
     ([Fetch (build_call cfg endpoint options)],
      Inl (Thrown_TimbalApiError
        (TimbalApiError (JStr ''Request timeout'') 0 (JStr TIMEOUT_ERROR) JUndefined)))"
  by (subst makeRequest.simps) simp

lemma makeRequest_network:
  "attempt (fetch k) = Inl (TypeError m) \<Longrightarrow> \<not> int k < retryAttempts cfg \<Longrightarrow>
   makeRequest cfg fetch endpoint options k =
     ([Fetch (build_call cfg endpoint options)],
      Inl (Thrown_TimbalApiError
        (TimbalApiError (JStr (''Network error: '' @ m)) 0 (JStr NETWORK_ERROR) JUndefined)))"
  by (subst makeRequest.simps) simp

lemma makeRequest_api_error:
  "attempt (fetch k) = Inl (Thrown_TimbalApiError e) \<Longrightarrow>
   \<not> (500 \<le> statusCode e \<and> int k < retryAttempts cfg) \<Longrightarrow>
   makeRequest cfg fetch endpoint options k =
     ([Fetch (build_call cfg endpoint options)], Inl (Thrown_TimbalApiError e))"
  by (subst makeRequest.simps) auto

lemma makeRequest_unknown:
  "attempt (fetch k) = Inl e \<Longrightarrow> (\<exists>m. e = SyntaxError m) \<or> (\<exists>s. e = OtherThrown s) \<Longrightarrow>
   makeRequest cfg fetch endpoint options k =
     ([Fetch (build_call cfg endpoint options)],
      Inl (Thrown_TimbalApiError
        (TimbalApiError (JStr (''Unknown error occurred: '' @ String_thrown e)) 0
           (JStr SERVER_ERROR) JUndefined)))"
  by (subst makeRequest.simps) auto

lemma snd_retry:
  "retryable_failure (fetch k) \<Longrightarrow> int k < retryAttempts cfg \<Longrightarrow>
   snd (makeRequest cfg fetch endpoint options k) =
     snd (makeRequest cfg fetch endpoint options (Suc k))"
  by (simp add: makeRequest_retry after_def)

lemma retries_run:
  "\<forall>i. k \<le> i \<and> i < k + d \<longrightarrow> retryable_failure (fetch i) \<Longrightarrow>
   int (k + d) \<le> retryAttempts cfg \<Longrightarrow>
   snd (makeRequest cfg fetch endpoint options k) =
     snd (makeRequest cfg fetch endpoint options (k + d))
   \<and> attempts (makeRequest cfg fetch endpoint options k) =
     d + attempts (makeRequest cfg fetch endpoint options (k + d))"
proof (induction d arbitrary: k)
  case 0
  then show ?case by simp
next
  case (Suc d)
  have r: "retryable_failure (fetch k)" "int k < retryAttempts cfg"
    using Suc.prems by auto
  have "snd (makeRequest cfg fetch endpoint options (Suc k)) =
          snd (makeRequest cfg fetch endpoint options (Suc k + d))
        \<and> attempts (makeRequest cfg fetch endpoint options (Suc k)) =
          d + attempts (makeRequest cfg fetch endpoint options (Suc k + d))"
    using Suc.prems by (intro Suc.IH) auto
  with r show ?case by (simp add: snd_retry attempts_retry)
qed

lemma makeRequest_classified:
  "(\<exists>response d. fetch (k + attempts (makeRequest cfg fetch endpoint options k) - 1) = Inr response
       \<and> ok response \<and> json response = Inr d
       \<and> snd (makeRequest cfg fetch endpoint options k) =
           Inr \<lparr>data = d, success = True, response_statusCode = status response\<rparr>)
   \<or> (\<exists>e. snd (makeRequest cfg fetch endpoint options k) = Inl (Thrown_TimbalApiError e))"
proof (induction "nat (retryAttempts cfg - int k)" arbitrary: k rule: less_induct)
  case less
  show ?case
  proof (cases "retryable_failure (fetch k) \<and> int k < retryAttempts cfg")
    case True
    then have lt: "nat (retryAttempts cfg - int (Suc k)) < nat (retryAttempts cfg - int k)"
      by linarith
    have pos: "0 < attempts (makeRequest cfg fetch endpoint options (Suc k))"
      by (subst attempts_def, subst trace_shape) simp
    from less[OF lt] True pos show ?thesis
      by (simp add: snd_retry attempts_retry)
  next
    case False
    have stop: "attempts (makeRequest cfg fetch endpoint options k) = 1"
      using False by (rule attempts_stop)
    show ?thesis
    proof (cases "attempt (fetch k)")
      case (Inr r)
      then obtain response d where "fetch k = Inr response" "ok response" "json response = Inr d"
        "r = \<lparr>data = d, success = True, response_statusCode = status response\<rparr>"
        by (auto simp: attempt_def Let_def split: sum.splits if_splits)
      with Inr show ?thesis
        by (simp add: makeRequest_success attempts_def)
    next
      case (Inl e)
      show ?thesis
      proof (cases e)
        case AbortError
        with Inl False show ?thesis
          by (simp add: makeRequest_timeout retryable_failure_def retryable_kind_def)
      next
        case (TypeError m)
        with Inl False show ?thesis
          by (simp add: makeRequest_network retryable_failure_def retryable_kind_def)
      next
        case (Thrown_TimbalApiError a)
        with Inl False have "\<not> (500 \<le> statusCode a \<and> int k < retryAttempts cfg)"
          by (simp add: retryable_failure_def retryable_kind_def)
        with Inl Thrown_TimbalApiError show ?thesis
          by (simp add: makeRequest_api_error)
      next
        case (SyntaxError m)
        with Inl show ?thesis by (simp add: makeRequest_unknown)
      next
        case (OtherThrown s)
        with Inl show ?thesis by (simp add: makeRequest_unknown)
      qed
    qed
  qed
qed

lemma exhausted_result:
  assumes "\<forall>i\<le>nat (retryAttempts cfg). retryable_failure (fetch i)"
  shows "snd (request cfg fetch endpoint options) =
           snd (makeRequest cfg fetch endpoint options (nat (retryAttempts cfg)))
       \<and> attempts (request cfg fetch endpoint options) = nat (retryAttempts cfg) + 1"
proof -
  let ?n = "nat (retryAttempts cfg)"
  have stop: "attempts (makeRequest cfg fetch endpoint options ?n) = 1"
    by (rule attempts_stop) auto
  show ?thesis
  proof (cases "0 \<le> retryAttempts cfg")
    case True
    have "snd (makeRequest cfg fetch endpoint options 0) =
            snd (makeRequest cfg fetch endpoint options (0 + ?n))
          \<and> attempts (makeRequest cfg fetch endpoint options 0) =
            ?n + attempts (makeRequest cfg fetch endpoint options (0 + ?n))"
      using assms True by (intro retries_run) auto
    with stop show ?thesis by (simp add: request_def)
  next
    case False
    with stop show ?thesis by (simp add: request_def)
  qed
qed

lemma retryable_server_error:
  "500 \<le> status response \<Longrightarrow> retryable_failure (Inr response)"
  by (simp add: retryable_failure_response ok_def split: sum.splits)

text \<open>
  A response with a 4xx status ends the dispatch when the error for it can be
  constructed, and is retried as a failure of the transport when it cannot.
\<close>

lemma client_error_thrown:
  assumes "fetch k = Inr response" and "400 \<le> status response" and "status response \<le> 499"
    and "response_error response = Inr error"
  shows "makeRequest cfg fetch endpoint options k =
           ([Fetch (build_call cfg endpoint options)], Inl (Thrown_TimbalApiError error))"
proof -
  have "\<not> ok response" using assms(2) by (simp add: ok_def)
  then have "attempt (fetch k) = Inl (Thrown_TimbalApiError error)"
    using assms(1,4) by (simp add: attempt_not_ok)
  moreover have "\<not> (500 \<le> statusCode error \<and> int k < retryAttempts cfg)"
    using assms(3,4) by (simp add: response_error_statusCode)
  ultimately show ?thesis by (rule makeRequest_api_error)
qed

lemma unconstructed_error_retried:
  assumes "fetch k = Inr response" and "\<not> ok response" and "response_error response = Inl e"
    and "int k < retryAttempts cfg"
  shows "makeRequest cfg fetch endpoint options k =
     after [Fetch (build_call cfg endpoint options), Sleep (retryDelay cfg * (int k + 1))]
       (makeRequest cfg fetch endpoint options (Suc k))"
proof -
  have "retryable_failure (fetch k)"
    using assms(1,2,3) by (simp add: retryable_failure_response)
  then show ?thesis using assms(4) by (rule makeRequest_retry)
qed

text \<open>An ok response with a body that is not JSON ends the dispatch.\<close>

lemma syntax_error_thrown:
  assumes "fetch k = Inr response" and "ok response" and "json response = Inl (SyntaxError m)"
  shows "makeRequest cfg fetch endpoint options k =
        ([Fetch (build_call cfg endpoint options)],
         Inl (Thrown_TimbalApiError
           (TimbalApiError (JStr (''Unknown error occurred: '' @ String_thrown (SyntaxError m))) 0
              (JStr SERVER_ERROR) JUndefined)))"
proof -
  have "attempt (fetch k) = Inl (SyntaxError m)"
    using assms by (simp add: attempt_def)
  then show ?thesis by (rule makeRequest_unknown) auto
qed

text \<open>
  When every attempt receives a response with status 500 or more, the error of the last
  response is thrown if it can be constructed.
\<close>

lemma last_server_error_thrown:
  assumes "\<forall>i\<le>nat (retryAttempts cfg). \<exists>response. fetch i = Inr response \<and> 500 \<le> status response"
    and "fetch (nat (retryAttempts cfg)) = Inr response"
    and "response_error response = Inr error"
  shows "snd (request cfg fetch endpoint options) = Inl (Thrown_TimbalApiError error)
       \<and> attempts (request cfg fetch endpoint options) = nat (retryAttempts cfg) + 1"
proof -
  let ?n = "nat (retryAttempts cfg)"
  have r: "\<forall>i\<le>?n. retryable_failure (fetch i)"
    using assms(1) retryable_server_error by metis
  have "500 \<le> status response" using assms(1,2) by force
  then have "\<not> ok response" by (simp add: ok_def)
  then have "attempt (fetch ?n) = Inl (Thrown_TimbalApiError error)"
    using assms(2,3) by (simp add: attempt_not_ok)
  then have "makeRequest cfg fetch endpoint options ?n =
      ([Fetch (build_call cfg endpoint options)], Inl (Thrown_TimbalApiError error))"
    by (rule makeRequest_api_error) auto
  with exhausted_result[OF r, of endpoint options] show ?thesis by simp
qed

text \<open>A dispatch whose headers are accepted is classified; one whose headers are not is not.\<close>

lemma dispatch_accepted:
  assumes "headers_accepted cfg options"
  shows "(\<exists>response d. fetch (attempts (dispatch cfg fetch endpoint options) - 1) = Inr response
        \<and> ok response \<and> json response = Inr d
        \<and> snd (dispatch cfg fetch endpoint options) =
            Inr \<lparr>data = d, success = True, response_statusCode = status response\<rparr>)
    \<or> (\<exists>e. snd (dispatch cfg fetch endpoint options) = Inl (Thrown_TimbalApiError e))"
  using assms makeRequest_classified[of fetch 0 cfg endpoint options]
  by (simp add: dispatch_def request_def)

lemma dispatch_rejected:
  assumes "\<not> headers_accepted cfg options"
  shows "dispatch cfg fetch endpoint options = ([], Inl (TypeError ''Invalid header''))"
  using assms by (simp add: dispatch_def)

subsection \<open>Header construction\<close>

lemma ascii_lower_idem: "ascii_lower (ascii_lower c) = ascii_lower c"
  by (auto simp: ascii_lower_def split: option.splits if_splits)

lemma lower_name_idem: "lower_name (lower_name n) = lower_name n"
  by (simp add: lower_name_def ascii_lower_idem)

lemma Headers_append_keys_None:
  assumes "distinct (map fst hs)" and "\<forall>p\<in>set hs. lower_name (fst p) = fst p"
    and "map_of hs (lower_name n) = None"
  shows "distinct (map fst (Headers_append hs n v))
       \<and> (\<forall>p\<in>set (Headers_append hs n v). lower_name (fst p) = fst p)"
proof -
  have "lower_name n \<notin> fst ` set hs"
    using assms(3) by (simp add: map_of_eq_None_iff)
  moreover have "Headers_append hs n v = hs @ [(lower_name n, v)]"
    using assms(3) by (simp add: Headers_append_def)
  ultimately show ?thesis
    using assms(1,2) by (simp add: lower_name_idem)
qed


lemma Headers_append_keys_Some:
  assumes "distinct (map fst hs)" and "\<forall>p\<in>set hs. lower_name (fst p) = fst p"
    and "map_of hs (lower_name n) = Some old"
  shows "distinct (map fst (Headers_append hs n v))
       \<and> (\<forall>p\<in>set (Headers_append hs n v). lower_name (fst p) = fst p)"
proof -
  let ?u = "AList.update (lower_name n) (old @ '', '' @ v) hs"
  have eq: "Headers_append hs n v = ?u"
    using assms(3) by (simp add: Headers_append_def)
  have "(lower_name n, old) \<in> set hs"
    using assms(3) by (rule map_of_SomeD)
  then have mem: "lower_name n \<in> fst ` set hs"
    by force
  have keys: "fst ` set ?u = fst ` set hs"
    using mem by (auto simp: AList.dom_update)
  have "lower_name (fst p) = fst p" if "p \<in> set ?u" for p
  proof -
    from that have "fst p \<in> fst ` set hs"
      using keys by blast
    then obtain q where "q \<in> set hs" "fst q = fst p"
      by auto
    with assms(2) show ?thesis by metis
  qed
  moreover have "distinct (map fst ?u)"
    using assms(1) by (rule AList.distinct_update)
  ultimately show ?thesis
    unfolding eq by blast
qed

lemma Headers_append_keys:
  assumes "distinct (map fst hs)" and "\<forall>p\<in>set hs. lower_name (fst p) = fst p"
  shows "distinct (map fst (Headers_append hs n v))
       \<and> (\<forall>p\<in>set (Headers_append hs n v). lower_name (fst p) = fst p)"
  using assms Headers_append_keys_None Headers_append_keys_Some
  by (cases "map_of hs (lower_name n)") blast+

lemma new_Headers_keys_aux:
  "distinct (map fst hs) \<Longrightarrow> \<forall>p\<in>set hs. lower_name (fst p) = fst p \<Longrightarrow>
   distinct (map fst (fold (\<lambda>(n, v) hs. Headers_append hs n v) init hs))
   \<and> (\<forall>p\<in>set (fold (\<lambda>(n, v) hs. Headers_append hs n v) init hs). lower_name (fst p) = fst p)"
proof (induction init arbitrary: hs)
  case Nil
  then show ?case by simp
next
  case (Cons q init)
  obtain n v where q: "q = (n, v)" by (cases q)
  have "distinct (map fst (Headers_append hs n v))
       \<and> (\<forall>p\<in>set (Headers_append hs n v). lower_name (fst p) = fst p)"
    using Cons.prems by (rule Headers_append_keys)
  then have "distinct (map fst (fold (\<lambda>(n, v) hs. Headers_append hs n v) init (Headers_append hs n v)))
   \<and> (\<forall>p\<in>set (fold (\<lambda>(n, v) hs. Headers_append hs n v) init (Headers_append hs n v)).
         lower_name (fst p) = fst p)"
    by (intro Cons.IH) blast+
  then show ?case by (simp add: q)
qed

lemma new_Headers_keys:
  "distinct (map fst (new_Headers init))
   \<and> (\<forall>p\<in>set (new_Headers init). lower_name (fst p) = fst p)"
  unfolding new_Headers_def by (rule new_Headers_keys_aux) simp_all

lemma map_of_Headers_entries:
  assumes "distinct (map fst hs)"
  shows "map_of (Headers_entries hs) = map_of hs"
proof -
  have "distinct (map fst (sort_key fst hs))"
    using assms by (simp add: distinct_map)
  then show ?thesis
    using assms by (simp add: Headers_entries_def map_of_inject_set)
qed

lemma fold_Headers_set:
  "distinct (map fst es) \<Longrightarrow> \<forall>p\<in>set es. lower_name (fst p) = fst p \<Longrightarrow>
   map_of (fold (\<lambda>(key, value) hs. Headers_set hs key value) es h0) x =
     (case map_of es x of Some v \<Rightarrow> Some v | None \<Rightarrow> map_of h0 x)"
proof (induction es arbitrary: h0)
  case Nil
  then show ?case by simp
next
  case (Cons q es)
  obtain k v where q: "q = (k, v)" by (cases q)
  have k: "lower_name k = k" "map_of es k = None"
    using Cons.prems by (auto simp: q map_of_eq_None_iff)
  have "map_of (fold (\<lambda>(key, value) hs. Headers_set hs key value) es (Headers_set h0 k v)) x =
     (case map_of es x of Some v \<Rightarrow> Some v | None \<Rightarrow> map_of (Headers_set h0 k v) x)"
    using Cons.prems by (intro Cons.IH) auto
  then show ?case
    using k by (auto simp: q Headers_set_def AList.update_conv' split: option.splits)
qed



lemma lower_name_Authorization: "lower_name ''Authorization'' = ''authorization''"
  by (simp add: lower_name_def ascii_lower_def)

lemma lower_name_Content_Type: "lower_name ''Content-Type'' = ''content-type''"
  by (simp add: lower_name_def ascii_lower_def)

lemma supplied_headers_keys:
  "distinct (map fst (supplied_headers options))
   \<and> (\<forall>p\<in>set (supplied_headers options). lower_name (fst p) = fst p)"
proof (cases "headers options")
  case None
  then show ?thesis by (simp add: supplied_headers_def)
next
  case (Some h)
  then show ?thesis
    using new_Headers_keys by (cases h) (simp_all add: supplied_headers_def)
qed

lemma overlay_get:
  "map_of (fold (\<lambda>(key, value) hs. Headers_set hs key value)
             (Headers_entries (supplied_headers options)) h0) x =
     (case map_of (supplied_headers options) x of Some v \<Rightarrow> Some v | None \<Rightarrow> map_of h0 x)"
proof -
  let ?s = "supplied_headers options"
  have sk: "distinct (map fst ?s)" "\<forall>p\<in>set ?s. lower_name (fst p) = fst p"
    using supplied_headers_keys[of options] by blast+
  have ek: "distinct (map fst (Headers_entries ?s))"
           "\<forall>p\<in>set (Headers_entries ?s). lower_name (fst p) = fst p"
    using sk by (simp_all add: Headers_entries_def distinct_map)
  show ?thesis
    using fold_Headers_set[OF ek, of h0 x] by (simp add: map_of_Headers_entries[OF sk(1)])
qed


lemma build_headers_overlay:
  "build_headers cfg options =
     (let headers1 = fold (\<lambda>(key, value) hs. Headers_set hs key value)
                       (Headers_entries (supplied_headers options))
                       [(''authorization'', ''Bearer '' @ apiKey cfg)]
      in if truthy_string_body (body options) \<and> \<not> Headers_has headers1 ''Content-Type''
         then Headers_set headers1 ''Content-Type'' ''application/json''
         else headers1)"
proof -
  have h0: "new_Headers [(''Authorization'', b)] = [(''authorization'', b)]" for b
    by (simp add: new_Headers_def Headers_append_def lower_name_Authorization)
  show ?thesis
  proof (cases "headers options")
    case None
    then show ?thesis
      by (simp only: build_headers_def supplied_headers_def h0 Let_def)
         (simp add: Headers_entries_def)
  next
    case (Some h)
    then show ?thesis
      by (cases h) (simp_all only: build_headers_def supplied_headers_def h0 Let_def,
                    simp_all)
  qed
qed

lemma build_headers_get:
  "Headers_get (build_headers cfg options) n =
     (case Headers_get (supplied_headers options) n of
        Some v \<Rightarrow> Some v
      | None \<Rightarrow>
          if lower_name n = ''authorization'' then Some (''Bearer '' @ apiKey cfg)
          else if lower_name n = ''content-type'' \<and> truthy_string_body (body options)
          then Some ''application/json''
          else None)"
proof -
  define bearer where "bearer = ''Bearer '' @ apiKey cfg"
  define headers1 where
    "headers1 = fold (\<lambda>(key, value) hs. Headers_set hs key value)
                  (Headers_entries (supplied_headers options)) [(''authorization'', bearer)]"
  have ov: "build_headers cfg options =
      (if truthy_string_body (body options) \<and> \<not> Headers_has headers1 ''Content-Type''
       then Headers_set headers1 ''Content-Type'' ''application/json'' else headers1)"
    by (simp only: build_headers_overlay headers1_def bearer_def Let_def)
  have h1: "map_of headers1 x =
      (case map_of (supplied_headers options) x of
         Some v \<Rightarrow> Some v
       | None \<Rightarrow> if x = ''authorization'' then Some bearer else None)" for x
    by (simp add: headers1_def overlay_get split: option.splits)
  have goal: "Headers_get (build_headers cfg options) n =
     (case Headers_get (supplied_headers options) n of
        Some v \<Rightarrow> Some v
      | None \<Rightarrow>
          if lower_name n = ''authorization'' then Some bearer
          else if lower_name n = ''content-type'' \<and> truthy_string_body (body options)
          then Some ''application/json''
          else None)"
  proof (cases "truthy_string_body (body options) \<and> \<not> Headers_has headers1 ''Content-Type''")
    case True
    then have none: "map_of (supplied_headers options) ''content-type'' = None"
      by (simp add: Headers_has_def lower_name_Content_Type h1 split: option.splits)
    have "build_headers cfg options = Headers_set headers1 ''Content-Type'' ''application/json''"
      using True by (simp add: ov)
    then show ?thesis
      using True none
      by (simp add: Headers_get_def Headers_set_def AList.update_conv' h1
            lower_name_Content_Type split: option.splits)
  next
    case False
    then have eq: "build_headers cfg options = headers1"
      unfolding ov by (rule if_not_P)
    from False have "\<not> truthy_string_body (body options)
        \<or> map_of (supplied_headers options) ''content-type'' \<noteq> None"
      by (auto simp: Headers_has_def lower_name_Content_Type h1 split: option.splits)
    then show ?thesis
      unfolding eq by (auto simp: Headers_get_def h1 split: option.splits)
  qed
  show ?thesis
    using goal by (simp only: bearer_def)
qed

subsection \<open>The merge\<close>

lemma get_prop_JObj:
  "get_prop (JObj fs) key = (case map_of fs key of Some v \<Rightarrow> v | None \<Rightarrow> JUndefined)"
  by (simp add: get_prop_def split: option.splits)

lemma or_js_not_nullish: "\<not> nullish (or_js v (JObj fs))"
  by (cases v) (auto simp: or_js_def nullish_def)

lemma deepMerge_keys_step_object:
  "\<not> nullish target \<Longrightarrow> get_prop (JObj source) key = JObj fs \<Longrightarrow>
   deepMerge (or_js (get_prop target key) (JObj [])) fs = Inr merged \<Longrightarrow>
   deepMerge_keys target source (key # keys) result =
     deepMerge_keys target source keys (AList.update key merged result)"
  by (simp add: deepMerge_def)

lemma deepMerge_keys_step_value:
  "\<not> nullish target \<Longrightarrow> \<forall>fs. get_prop (JObj source) key \<noteq> JObj fs \<Longrightarrow>
   deepMerge_keys target source (key # keys) result =
     deepMerge_keys target source keys (AList.update key (get_prop (JObj source) key) result)"
  by (cases "get_prop (JObj source) key") (simp_all add: Let_def)

lemma deepMerge_keys_total:
  "\<not> nullish target \<Longrightarrow> \<exists>r. deepMerge_keys target source keys result = Inr (JObj r)"
proof (induction target source keys result rule: deepMerge_keys.induct)
  case (1 target source result)
  then show ?case by simp
next
  case (2 target source key keys result)
  show ?case
  proof (cases "\<exists>fs. get_prop (JObj source) key = JObj fs")
    case True
    then obtain fs where fs: "get_prop (JObj source) key = JObj fs" by blast
    let ?t = "or_js (get_prop target key) (JObj [])"
    have "\<exists>r. deepMerge_keys ?t fs (map fst fs) (own_props ?t) = Inr (JObj r)"
      using "2.prems" fs by (intro "2.IH"(7)) (auto simp: or_js_not_nullish)
    then obtain m where m: "deepMerge ?t fs = Inr (JObj m)"
      by (auto simp: deepMerge_def)
    have "\<exists>r. deepMerge_keys target source keys (AList.update key (JObj m) result) = Inr (JObj r)"
      using "2.prems" fs m by (intro "2.IH"(8)) (auto simp: deepMerge_def)
    then show ?thesis
      using deepMerge_keys_step_object[OF "2.prems" fs m] by simp
  next
    case False
    have "\<exists>r. deepMerge_keys target source keys
              (AList.update key (get_prop (JObj source) key) result) = Inr (JObj r)"
      using "2.prems" False "2.IH"(1-6)
      by (cases "get_prop (JObj source) key") auto
    then show ?thesis
      using deepMerge_keys_step_value[OF "2.prems", of source key] False by simp
  qed
qed

lemma deepMerge_keys_lookup:
  "\<not> nullish target \<Longrightarrow> deepMerge_keys target source keys result = Inr (JObj r) \<Longrightarrow>
   map_of r k = (if k \<in> set keys then Some (merged_property target source k) else map_of result k)"
proof (induction keys arbitrary: result)
  case Nil
  then show ?case by simp
next
  case (Cons key keys)
  show ?case
  proof (cases "\<exists>fs. get_prop (JObj source) key = JObj fs")
    case True
    then obtain fs where fs: "get_prop (JObj source) key = JObj fs" by blast
    let ?t = "or_js (get_prop target key) (JObj [])"
    obtain m where m: "deepMerge ?t fs = Inr (JObj m)"
      using deepMerge_keys_total[OF or_js_not_nullish, of "get_prop target key" "[]" fs "map fst fs" "own_props ?t"]
      by (auto simp: deepMerge_def)
    have mp: "merged_property target source key = JObj m"
      by (simp add: merged_property_def fs m)
    have "deepMerge_keys target source keys (AList.update key (JObj m) result) = Inr (JObj r)"
      using deepMerge_keys_step_object[OF Cons.prems(1) fs m] Cons.prems(2) by simp
    from Cons.IH[OF Cons.prems(1) this] show ?thesis
      by (simp add: mp AList.update_conv')
  next
    case False
    then have mp: "merged_property target source key = get_prop (JObj source) key"
      by (cases "get_prop (JObj source) key") (simp_all add: merged_property_def)
    have "deepMerge_keys target source keys
            (AList.update key (get_prop (JObj source) key) result) = Inr (JObj r)"
      using deepMerge_keys_step_value[OF Cons.prems(1), of source key] False Cons.prems(2) by simp
    from Cons.IH[OF Cons.prems(1) this] show ?thesis
      by (simp add: mp AList.update_conv')
  qed
qed

subsection \<open>Writes to one object of the store\<close>

lemma length_mutations: "length (fold (mutate a) ms h) = length h"
proof (induction ms arbitrary: h)
  case Nil
  then show ?case by simp
next
  case (Cons m ms)
  then show ?case by (cases m) simp_all
qed

lemma mutations_frame: "p \<noteq> a \<Longrightarrow> fold (mutate a) ms h ! p = h ! p"
proof (induction ms arbitrary: h)
  case Nil
  then show ?case by simp
next
  case (Cons m ms)
  then show ?case by (cases m) simp_all
qed

subsection \<open>The claims\<close>

text \<open>The errors of the example responses.\<close>

lemma example_404_thrown:
  "request example_config (\<lambda>i. Inr example_404) ''/tables/t'' example_options =
     ([Fetch (build_call example_config ''/tables/t'' example_options)],
      Inl (Thrown_TimbalApiError
        \<lparr>message = JStr ''No such table'', statusCode = 404, code = JStr ''NOT_FOUND'',
         details = JUndefined\<rparr>))"
proof -
  have "response_error example_404 =
      Inr \<lparr>message = JStr ''No such table'', statusCode = 404, code = JStr ''NOT_FOUND'',
           details = JUndefined\<rparr>"
    by (simp add: response_error_def new_TimbalApiError_def TimbalApiError_def
          parseErrorResponse_def example_404_def nullish_def get_prop_def or_js_def)
  then show ?thesis
    unfolding request_def
    by (intro client_error_thrown[where response = example_404]) (simp_all add: example_404_def)
qed

lemma example_bad_json_thrown:
  "request example_config (\<lambda>i. Inr example_bad_json) ''/query'' example_options =
     ([Fetch (build_call example_config ''/query'' example_options)],
      Inl (Thrown_TimbalApiError
        \<lparr>message = JStr ''Unknown error occurred: SyntaxError: Unexpected token <'',
         statusCode = 0, code = JStr ''SERVER_ERROR'', details = JUndefined\<rparr>))"
  using syntax_error_thrown [of "\<lambda>i. Inr example_bad_json" 0 example_bad_json
          "''Unexpected token <''" example_config "''/query''" example_options]
  by (simp add: request_def example_bad_json_def ok_def TimbalApiError_def SERVER_ERROR_def)

lemma example_number_numeral:
  "Number_toString 42 = ''42''"
  by code_simp

lemma example_number_message:
  "response_error \<lparr>status = 500, statusText = [], json = Inr (JObj [(''error'', JNum 42)])\<rparr> =
     Inr \<lparr>message = JStr ''42'', statusCode = 500, code = JUndefined, details = JUndefined\<rparr>"
proof -
  have "parseErrorResponse
          \<lparr>status = 500, statusText = [], json = Inr (JObj [(''error'', JNum 42)])\<rparr> =
      \<lparr>message = JNum 42, statusCode = 500, code = JUndefined, details = JUndefined\<rparr>"
    by (simp add: parseErrorResponse_def nullish_def get_prop_def or_js_def)
  then show ?thesis
    by (simp add: response_error_def new_TimbalApiError_def TimbalApiError_def or_js_def
          example_number_numeral)
qed

lemma example_unconvertible_error:
  "response_error (example_unconvertible s) =
     Inl (TypeError ''Cannot convert object to primitive value'')"
  by (simp add: response_error_def new_TimbalApiError_def parseErrorResponse_def
        example_unconvertible_def nullish_def get_prop_def or_js_def)

lemma scenario_attempts:
  "attempts (request example_config
      (\<lambda>i. if i < 2 then Inr (example_503 ''busy'') else Inr example_ok) ''/query'' example_options) = 3"
proof -
  let ?fetch = "\<lambda>i::nat. if i < 2 then Inr (example_503 ''busy'') else Inr example_ok :: thrown + Response"
  have a: "\<not> retryable_failure (Inr example_ok)"
    by (simp add: retryable_failure_def attempt_def ok_def example_ok_def)
  have b: "retryable_failure (Inr (example_503 ''busy''))"
    by (rule retryable_server_error) (simp add: example_503_def)
  have "attempts (makeRequest example_config ?fetch ''/query'' example_options 0) =
          1 + min 2 (nat (retryAttempts example_config - int 0))"
    using a b by (intro attempts_until) auto
  then show ?thesis by (simp add: request_def example_config_def)
qed



text \<open>
  C2. A dispatch whose headers the platform accepts returns the envelope or throws a
  \<^verbatim>\<open>TimbalApiError\<close> (lemma \<open>dispatch_accepted\<close>); one whose headers it does not accept does
  neither. For a caller header whose name has a space in it, and for a credential with a
  line feed in it, \<^verbatim>\<open>new Headers\<close> throws a \<^verbatim>\<open>TypeError\<close> before the \<^verbatim>\<open>try\<close> block: nothing is
  fetched, and what the dispatch throws is that \<^verbatim>\<open>TypeError\<close>, which is no
  \<^verbatim>\<open>TimbalApiError\<close>.
\<close>

theorem dispatch_unclassified_TypeError:
  "dispatch example_config (\<lambda>i. Inr example_ok) ''/query'' example_bad_header =
     ([], Inl (TypeError ''Invalid header''))
   \<and> dispatch (example_config\<lparr>apiKey := ''sec'' @ [CHR 0x0A] @ ''ret''\<rparr>)
        (\<lambda>i. Inr example_ok) ''/query'' example_options =
     ([], Inl (TypeError ''Invalid header''))"
  by (simp add: dispatch_def headers_accepted_def Headers_accepts_def header_name_def
        header_value_def normalize_value_def http_whitespace_def token_char_def
        example_bad_header_def example_config_def example_options_def)

text \<open>
  C3. The effects of a dispatch are its first attempt followed, for each further
  attempt \<open>N = 2, 3, \<dots>\<close>, by a wait of \<open>retryDelay * (N - 1)\<close> and then attempt \<open>N\<close>.
\<close>

theorem backoff_linear:
  "fst (request cfg fetch endpoint options) =
     Fetch (build_call cfg endpoint options) #
     concat (map (\<lambda>N. [Sleep (retryDelay cfg * (int N - 1)), Fetch (build_call cfg endpoint options)])
               [2..<Suc (attempts (request cfg fetch endpoint options))])"
proof -
  let ?a = "attempts (makeRequest cfg fetch endpoint options 0)"
  have "[2..<Suc ?a] = map Suc [1..<?a]"
    by (simp add: map_Suc_upt numeral_2_eq_2)
  then show ?thesis
    unfolding request_def
    by (subst trace_shape) (simp add: comp_def)
qed

theorem backoff_linear_witness:
  "fst (request example_config
      (\<lambda>i. if i < 2 then Inr (example_503 ''busy'') else Inr example_ok) ''/query'' example_options) =
   [Fetch (build_call example_config ''/query'' example_options), Sleep 100,
    Fetch (build_call example_config ''/query'' example_options), Sleep 200,
    Fetch (build_call example_config ''/query'' example_options)]"
proof -
  have u: "[2..<Suc 3] = [2, 3]"
    by (simp add: upt_rec)
  have d: "retryDelay example_config = 100"
    by (simp add: example_config_def)
  show ?thesis
    using backoff_linear [of example_config
      "\<lambda>i. if i < 2 then Inr (example_503 ''busy'') else Inr example_ok" "''/query''" example_options]
    by (simp add: scenario_attempts u d)
qed

text \<open>
  C4. A response with a 4xx status whose body has a \<^verbatim>\<open>message\<close> that cannot be converted
  to a string is retried. The constructor of the error throws a \<^verbatim>\<open>TypeError\<close> inside the
  \<^verbatim>\<open>try\<close> block, the handler takes it for a failure of the transport, and with two retries
  configured the dispatch makes three attempts and throws the network error with status
  code 0, not an error with the status 404 and the fields of the body. For a 4xx response
  whose error can be constructed the attempt is the last one and that error is thrown
  (lemmas \<open>client_error_thrown\<close> and \<open>response_error_fields\<close>).
\<close>

theorem client_error_retried:
  "request example_config (\<lambda>i. Inr (example_unconvertible 404)) ''/tables/t'' example_options =
     ([Fetch (build_call example_config ''/tables/t'' example_options), Sleep 100,
       Fetch (build_call example_config ''/tables/t'' example_options), Sleep 200,
       Fetch (build_call example_config ''/tables/t'' example_options)],
      Inl (Thrown_TimbalApiError
        \<lparr>message = JStr ''Network error: Cannot convert object to primitive value'',
         statusCode = 0, code = JStr ''NETWORK_ERROR'', details = JUndefined\<rparr>))"
proof -
  let ?fetch = "\<lambda>i::nat. Inr (example_unconvertible 404) :: thrown + Response"
  have nok: "\<not> ok (example_unconvertible 404)"
    by (simp add: ok_def example_unconvertible_def)
  have a: "attempt (?fetch i) = Inl (TypeError ''Cannot convert object to primitive value'')" for i
    using nok by (simp add: attempt_not_ok example_unconvertible_error)
  have r: "retryable_failure (?fetch i)" for i
    by (simp add: retryable_failure_def retryable_kind_def a)
  have "makeRequest example_config ?fetch ''/tables/t'' example_options 2 =
     ([Fetch (build_call example_config ''/tables/t'' example_options)],
      Inl (Thrown_TimbalApiError
        (TimbalApiError (JStr (''Network error: '' @ ''Cannot convert object to primitive value'')) 0
           (JStr NETWORK_ERROR) JUndefined)))"
    using a by (rule makeRequest_network) (simp add: example_config_def)
  moreover have "makeRequest example_config ?fetch ''/tables/t'' example_options 1 =
     after [Fetch (build_call example_config ''/tables/t'' example_options),
            Sleep (retryDelay example_config * (int 1 + 1))]
       (makeRequest example_config ?fetch ''/tables/t'' example_options (Suc 1))"
    using r by (rule makeRequest_retry) (simp add: example_config_def)
  moreover have "makeRequest example_config ?fetch ''/tables/t'' example_options 0 =
     after [Fetch (build_call example_config ''/tables/t'' example_options),
            Sleep (retryDelay example_config * (int 0 + 1))]
       (makeRequest example_config ?fetch ''/tables/t'' example_options (Suc 0))"
    using r by (rule makeRequest_retry) (simp add: example_config_def)
  ultimately show ?thesis
    by (simp add: request_def after_def TimbalApiError_def NETWORK_ERROR_def example_config_def
          numeral_2_eq_2)
qed

text \<open>
  C5. When every attempt receives a response with status 503 and the body of the last
  one has a \<^verbatim>\<open>message\<close> that cannot be converted to a string, the error thrown after the
  retries is the network error with status code 0: the constructor of the error for the
  last response throws inside the \<^verbatim>\<open>try\<close> block, and the handler takes the \<^verbatim>\<open>TypeError\<close> for
  a failure of the transport. When the error of the last response can be constructed, it
  is the one thrown (lemma \<open>last_server_error_thrown\<close>).
\<close>

theorem last_server_error_replaced:
  "snd (request example_config
          (\<lambda>i. Inr (if i = 2 then example_unconvertible 503 else example_503 ''busy''))
          ''/query'' example_options) =
     Inl (Thrown_TimbalApiError
       \<lparr>message = JStr ''Network error: Cannot convert object to primitive value'',
        statusCode = 0, code = JStr ''NETWORK_ERROR'', details = JUndefined\<rparr>)
   \<and> attempts (request example_config
          (\<lambda>i. Inr (if i = 2 then example_unconvertible 503 else example_503 ''busy''))
          ''/query'' example_options) = 3
   \<and> status (example_unconvertible 503) = 503"
proof -
  let ?fetch = "\<lambda>i::nat. Inr (if i = 2 then example_unconvertible 503 else example_503 ''busy'')
                  :: thrown + Response"
  have n: "nat (retryAttempts example_config) = 2"
    by (simp add: example_config_def)
  have r: "\<forall>i\<le>nat (retryAttempts example_config). retryable_failure (?fetch i)"
    by (simp add: retryable_server_error example_503_def example_unconvertible_def)
  have nok: "\<not> ok (example_unconvertible 503)"
    by (simp add: ok_def example_unconvertible_def)
  have "attempt (?fetch 2) = Inl (TypeError ''Cannot convert object to primitive value'')"
    using nok by (simp add: attempt_not_ok example_unconvertible_error)
  then have "makeRequest example_config ?fetch ''/query'' example_options 2 =
     ([Fetch (build_call example_config ''/query'' example_options)],
      Inl (Thrown_TimbalApiError
        (TimbalApiError (JStr (''Network error: '' @ ''Cannot convert object to primitive value'')) 0
           (JStr NETWORK_ERROR) JUndefined)))"
    by (rule makeRequest_network) (simp add: example_config_def)
  with exhausted_result[OF r, of "''/query''" example_options] show ?thesis
    by (simp add: n TimbalApiError_def NETWORK_ERROR_def example_unconvertible_def)
qed

text \<open>
  C6. When every attempt is aborted by its timer, the dispatch throws the error with
  message \<^verbatim>\<open>'Request timeout'\<close>, status code 0 and code \<^verbatim>\<open>TIMEOUT_ERROR\<close>; when every attempt
  fails in the transport, it throws the error with status code 0, code \<^verbatim>\<open>NETWORK_ERROR\<close>
  and the message \<^verbatim>\<open>'Network error: '\<close> followed by the message of the last transport
  error. Both after \<open>retryAttempts + 1\<close> attempts.
\<close>

theorem exhausted_transport_errors:
  "((\<forall>i\<le>nat (retryAttempts cfg). fetch i = Inl AbortError) \<longrightarrow>
      snd (request cfg fetch endpoint options) =
        Inl (Thrown_TimbalApiError
          (TimbalApiError (JStr ''Request timeout'') 0 (JStr TIMEOUT_ERROR) JUndefined))
      \<and> attempts (request cfg fetch endpoint options) = nat (retryAttempts cfg) + 1)
   \<and> ((\<forall>i\<le>nat (retryAttempts cfg). \<exists>m. fetch i = Inl (TypeError m)) \<longrightarrow>
      (\<exists>m. fetch (nat (retryAttempts cfg)) = Inl (TypeError m)
         \<and> snd (request cfg fetch endpoint options) =
             Inl (Thrown_TimbalApiError
               (TimbalApiError (JStr (''Network error: '' @ m)) 0 (JStr NETWORK_ERROR) JUndefined)))
      \<and> attempts (request cfg fetch endpoint options) = nat (retryAttempts cfg) + 1)"
proof (intro conjI impI)
  let ?n = "nat (retryAttempts cfg)"
  assume a: "\<forall>i\<le>?n. fetch i = Inl AbortError"
  then have r: "\<forall>i\<le>?n. retryable_failure (fetch i)"
    by (simp add: retryable_failure_def retryable_kind_def attempt_def)
  have "attempt (fetch ?n) = Inl AbortError" using a by (simp add: attempt_def)
  then have "makeRequest cfg fetch endpoint options ?n =
     ([Fetch (build_call cfg endpoint options)],
      Inl (Thrown_TimbalApiError
        (TimbalApiError (JStr ''Request timeout'') 0 (JStr TIMEOUT_ERROR) JUndefined)))"
    by (rule makeRequest_timeout) auto
  with exhausted_result[OF r, of endpoint options]
  show "snd (request cfg fetch endpoint options) =
        Inl (Thrown_TimbalApiError
          (TimbalApiError (JStr ''Request timeout'') 0 (JStr TIMEOUT_ERROR) JUndefined))"
    and "attempts (request cfg fetch endpoint options) = nat (retryAttempts cfg) + 1"
    by simp_all
next
  let ?n = "nat (retryAttempts cfg)"
  assume a: "\<forall>i\<le>?n. \<exists>m. fetch i = Inl (TypeError m)"
  then have r: "\<forall>i\<le>?n. retryable_failure (fetch i)"
    by (auto simp add: retryable_failure_def retryable_kind_def attempt_def)
  obtain m where m: "fetch ?n = Inl (TypeError m)" using a by auto
  then have "attempt (fetch ?n) = Inl (TypeError m)" by (simp add: attempt_def)
  then have "makeRequest cfg fetch endpoint options ?n =
     ([Fetch (build_call cfg endpoint options)],
      Inl (Thrown_TimbalApiError
        (TimbalApiError (JStr (''Network error: '' @ m)) 0 (JStr NETWORK_ERROR) JUndefined)))"
    by (rule makeRequest_network) auto
  with exhausted_result[OF r, of endpoint options] m
  show "\<exists>m. fetch (nat (retryAttempts cfg)) = Inl (TypeError m)
         \<and> snd (request cfg fetch endpoint options) =
             Inl (Thrown_TimbalApiError
               (TimbalApiError (JStr (''Network error: '' @ m)) 0 (JStr NETWORK_ERROR) JUndefined))"
    and "attempts (request cfg fetch endpoint options) = nat (retryAttempts cfg) + 1"
    by simp_all
qed

theorem exhausted_transport_errors_witness:
  "snd (request example_config (\<lambda>i. Inl AbortError) ''/query'' example_options) =
     Inl (Thrown_TimbalApiError
       \<lparr>message = JStr ''Request timeout'', statusCode = 0, code = JStr ''TIMEOUT_ERROR'',
        details = JUndefined\<rparr>)
   \<and> snd (request example_config (\<lambda>i. Inl (TypeError ''fetch failed'')) ''/query'' example_options) =
     Inl (Thrown_TimbalApiError
       \<lparr>message = JStr ''Network error: fetch failed'', statusCode = 0,
        code = JStr ''NETWORK_ERROR'', details = JUndefined\<rparr>)
   \<and> attempts (request example_config (\<lambda>i. Inl AbortError) ''/query'' example_options) = 3"
  using exhausted_transport_errors [of example_config "\<lambda>i. Inl AbortError" "''/query''" example_options]
        exhausted_transport_errors [of example_config "\<lambda>i. Inl (TypeError ''fetch failed'')"
           "''/query''" example_options]
  by (simp add: TimbalApiError_def TIMEOUT_ERROR_def NETWORK_ERROR_def example_config_def)

text \<open>
  C8. A response with a 4xx status does not always end the dispatch: when its body has a
  \<^verbatim>\<open>message\<close> that cannot be converted to a string, the dispatch waits and makes a second
  attempt, and here returns the envelope of the second response; the error of the first
  response never reaches the caller. An ok response with a body that is not JSON does end
  the dispatch (lemma \<open>syntax_error_thrown\<close>), and so does a 4xx response whose error can be
  constructed (lemma \<open>client_error_thrown\<close>).
\<close>

theorem client_error_second_attempt:
  "request example_config
      (\<lambda>i. if i = 0 then Inr (example_unconvertible 400) else Inr example_ok)
      ''/query'' example_options =
     ([Fetch (build_call example_config ''/query'' example_options), Sleep 100,
       Fetch (build_call example_config ''/query'' example_options)],
      Inr \<lparr>data = JObj [(''count'', JNum 5)], success = True, response_statusCode = 200\<rparr>)"
proof -
  let ?fetch = "\<lambda>i::nat. if i = 0 then Inr (example_unconvertible 400) else Inr example_ok
                  :: thrown + Response"
  have nok: "\<not> ok (example_unconvertible 400)"
    by (simp add: ok_def example_unconvertible_def)
  have "attempt (?fetch 0) = Inl (TypeError ''Cannot convert object to primitive value'')"
    using nok by (simp add: attempt_not_ok example_unconvertible_error)
  then have "retryable_failure (?fetch 0)"
    by (simp add: retryable_failure_def retryable_kind_def)
  then have "makeRequest example_config ?fetch ''/query'' example_options 0 =
     after [Fetch (build_call example_config ''/query'' example_options),
            Sleep (retryDelay example_config * (int 0 + 1))]
       (makeRequest example_config ?fetch ''/query'' example_options (Suc 0))"
    by (rule makeRequest_retry) (simp add: example_config_def)
  moreover have "attempt (?fetch (Suc 0)) =
      Inr \<lparr>data = JObj [(''count'', JNum 5)], success = True, response_statusCode = 200\<rparr>"
    by (simp add: attempt_def ok_def example_ok_def)
  then have "makeRequest example_config ?fetch ''/query'' example_options (Suc 0) =
     ([Fetch (build_call example_config ''/query'' example_options)],
      Inr \<lparr>data = JObj [(''count'', JNum 5)], success = True, response_statusCode = 200\<rparr>)"
    by (rule makeRequest_success)
  ultimately show ?thesis
    by (simp add: request_def after_def example_config_def)
qed

text \<open>
  C7. The headers of a request. With no caller headers and no non-empty string body they
  are exactly the \<^verbatim>\<open>Authorization\<close> header with the bearer credential. A header the
  caller supplies, under a name in any letter case, has the caller's value in the
  result, \<^verbatim>\<open>Authorization\<close> included; \<^verbatim>\<open>Authorization\<close> is the bearer credential when the
  caller supplies none. When the body is a non-empty string and the caller supplied no
  \<^verbatim>\<open>Content-Type\<close>, it is \<^verbatim>\<open>application/json\<close>. For a \<^verbatim>\<open>FormData\<close> or a binary body the
  \<^verbatim>\<open>Content-Type\<close> is the caller's, and absent when the caller gave none.
\<close>

theorem header_construction:
  "(\<forall>c. Fetch c \<in> set (fst (request cfg fetch endpoint options)) \<longrightarrow>
      fetch_headers c = build_headers cfg options)
   \<and> (\<forall>c. Fetch c \<in> set (fst (postFormData cfg fetch endpoint formData)) \<longrightarrow>
      Headers_get (fetch_headers c) ''Content-Type'' = None)
   \<and> (headers options = None \<and> \<not> truthy_string_body (body options) \<longrightarrow>
      build_headers cfg options = [(''authorization'', ''Bearer '' @ apiKey cfg)])
   \<and> (Headers_get (supplied_headers options) ''Authorization'' = None \<longrightarrow>
      Headers_get (build_headers cfg options) ''Authorization'' = Some (''Bearer '' @ apiKey cfg))
   \<and> (\<forall>n v. Headers_get (supplied_headers options) n = Some v \<longrightarrow>
      Headers_get (build_headers cfg options) n = Some v)
   \<and> (\<forall>s. body options = Some (BodyString s) \<and> s \<noteq> []
          \<and> Headers_get (supplied_headers options) ''Content-Type'' = None \<longrightarrow>
      Headers_get (build_headers cfg options) ''Content-Type'' = Some ''application/json'')
   \<and> ((\<exists>fd. body options = Some (BodyFormData fd)) \<or> (\<exists>bs. body options = Some (BodyBinary bs)) \<longrightarrow>
      Headers_get (build_headers cfg options) ''Content-Type'' =
        Headers_get (supplied_headers options) ''Content-Type'')"
proof (intro conjI allI impI)
  fix c
  assume "Fetch c \<in> set (fst (request cfg fetch endpoint options))"
  then have "c = build_call cfg endpoint options"
    unfolding request_def by (rule fetch_calls)
  then show "fetch_headers c = build_headers cfg options"
    by (simp add: build_call_def)
next
  fix c
  let ?o = "\<lparr>request_method = Some ''POST'', body = Some (BodyFormData formData), headers = None\<rparr>"
  assume "Fetch c \<in> set (fst (postFormData cfg fetch endpoint formData))"
  then have "c = build_call cfg endpoint ?o"
    unfolding postFormData_def by (rule fetch_calls)
  then have "fetch_headers c = build_headers cfg ?o"
    by (simp add: build_call_def)
  moreover have "Headers_get (supplied_headers ?o) ''Content-Type'' = None"
    by (simp add: supplied_headers_def Headers_get_def)
  ultimately show "Headers_get (fetch_headers c) ''Content-Type'' = None"
    by (simp add: build_headers_get lower_name_Content_Type)
next
  assume "headers options = None \<and> \<not> truthy_string_body (body options)"
  then show "build_headers cfg options = [(''authorization'', ''Bearer '' @ apiKey cfg)]"
    by (simp add: build_headers_overlay supplied_headers_def Headers_entries_def)
next
  assume "Headers_get (supplied_headers options) ''Authorization'' = None"
  then show "Headers_get (build_headers cfg options) ''Authorization'' = Some (''Bearer '' @ apiKey cfg)"
    by (simp add: build_headers_get lower_name_Authorization)
next
  fix n v
  assume "Headers_get (supplied_headers options) n = Some v"
  then show "Headers_get (build_headers cfg options) n = Some v"
    by (simp add: build_headers_get)
next
  fix s
  assume "body options = Some (BodyString s) \<and> s \<noteq> []
          \<and> Headers_get (supplied_headers options) ''Content-Type'' = None"
  then show "Headers_get (build_headers cfg options) ''Content-Type'' = Some ''application/json''"
    by (simp add: build_headers_get lower_name_Content_Type)
next
  assume "(\<exists>fd. body options = Some (BodyFormData fd)) \<or> (\<exists>bs. body options = Some (BodyBinary bs))"
  then have "\<not> truthy_string_body (body options)" by auto
  then show "Headers_get (build_headers cfg options) ''Content-Type'' =
        Headers_get (supplied_headers options) ''Content-Type''"
    by (simp add: build_headers_get lower_name_Content_Type split: option.splits)
qed

theorem header_construction_witness:
  "Headers_get (build_headers example_config example_post) ''Authorization'' = Some ''Basic abc''
   \<and> Headers_get (build_headers example_config example_post) ''x-trace'' = Some ''1''
   \<and> Headers_get (build_headers example_config example_post) ''Content-Type'' = Some ''application/json''
   \<and> build_headers example_config example_options = [(''authorization'', ''Bearer secret'')]
   \<and> Headers_get (build_headers example_config example_upload) ''Authorization'' = Some ''Bearer secret''
   \<and> Headers_get (build_headers example_config example_upload) ''Content-Type'' = None"
proof -
  have sp: "supplied_headers example_post = [(''authorization'', ''Basic abc''), (''x-trace'', ''1'')]"
    by (simp add: supplied_headers_def example_post_def new_Headers_def Headers_append_def
          lower_name_def ascii_lower_def)
  have su: "supplied_headers example_upload = []"
    by (simp add: supplied_headers_def example_upload_def)
  have g: "Headers_get (supplied_headers example_post) ''Authorization'' = Some ''Basic abc''"
    "Headers_get (supplied_headers example_post) ''x-trace'' = Some ''1''"
    "Headers_get (supplied_headers example_post) ''Content-Type'' = None"
    by (simp_all add: sp Headers_get_def lower_name_def ascii_lower_def)
  have b: "body example_post = Some (BodyString ''SELECT 1'')"
    "body example_upload = Some (BodyFormData [(''file'', ''data'')])"
    "headers example_options = None \<and> \<not> truthy_string_body (body example_options)"
    by (simp_all add: example_post_def example_upload_def example_options_def)
  note t = header_construction [where options = example_post and cfg = example_config
      and fetch = "\<lambda>i. Inl AbortError" and endpoint = "''/files''" and formData = "[]"]
  note u = header_construction [where options = example_upload and cfg = example_config
      and fetch = "\<lambda>i. Inl AbortError" and endpoint = "''/files''" and formData = "[]"]
  note w = header_construction [where options = example_options and cfg = example_config
      and fetch = "\<lambda>i. Inl AbortError" and endpoint = "''/files''" and formData = "[]"]
  show ?thesis
    using t u w g b
    by (simp add: su Headers_get_def example_config_def)
qed

text \<open>
  The default is tied to the truthiness of the body: an empty string is a body that is
  present and is a string, and it gets no \<^verbatim>\<open>Content-Type\<close>.
\<close>

theorem empty_string_body_counterexample:
  "body example_empty_body = Some (BodyString [])
   \<and> headers example_empty_body = None
   \<and> Headers_get (build_headers example_config example_empty_body) ''Content-Type'' = None"
  by (simp add: example_empty_body_def example_config_def build_headers_def new_Headers_def
        Headers_append_def Headers_has_def Headers_get_def lower_name_def ascii_lower_def)

text \<open>
  C9. The configuration merge, as the constructor and \<^verbatim>\<open>updateConfig\<close> use it. For a
  target that is not \<^verbatim>\<open>null\<close> or \<^verbatim>\<open>undefined\<close> the merge returns an object in which a key
  absent from the update keeps the target's property; a key whose update value is an
  object (not an array, not \<^verbatim>\<open>null\<close>) holds the merge of that value into the target's value
  for the key (into the empty object when that value is falsy); and a key with any other
  update value holds the update value.
\<close>

theorem deepMerge_merges_keywise:
  assumes "\<not> nullish target"
  shows "\<exists>r. deepMerge target source = Inr (JObj r)
     \<and> new_ApiClient target source = Inr \<lparr>config = JObj r\<rparr>
     \<and> updateConfig \<lparr>config = target\<rparr> source = Inr \<lparr>config = JObj r\<rparr>
     \<and> (\<forall>key.
          (map_of source key = None \<longrightarrow> map_of r key = map_of (own_props target) key)
        \<and> (\<forall>fs. map_of source key = Some (JObj fs) \<longrightarrow>
              (\<exists>merged. deepMerge (or_js (get_prop target key) (JObj [])) fs = Inr merged
                  \<and> map_of r key = Some merged))
        \<and> (\<forall>v. map_of source key = Some v \<and> (\<forall>fs. v \<noteq> JObj fs) \<longrightarrow>
              map_of r key = Some v))"
proof -
  obtain r where r: "deepMerge_keys target source (map fst source) (own_props target) = Inr (JObj r)"
    using deepMerge_keys_total[OF assms] by blast
  have look: "map_of r k =
      (if k \<in> set (map fst source) then Some (merged_property target source k)
       else map_of (own_props target) k)" for k
    using assms r by (rule deepMerge_keys_lookup)
  have none: "map_of r key = map_of (own_props target) key" if "map_of source key = None" for key
  proof -
    from that have "key \<notin> set (map fst source)"
      by (simp add: map_of_eq_None_iff)
    then show ?thesis by (simp add: look)
  qed
  have mem: "key \<in> set (map fst source)" if "map_of source key = Some v" for key v
    using that by (metis map_of_eq_None_iff option.distinct(1) set_map)
  have obj: "\<exists>merged. deepMerge (or_js (get_prop target key) (JObj [])) fs = Inr merged
                  \<and> map_of r key = Some merged"
    if "map_of source key = Some (JObj fs)" for key fs
  proof -
    let ?t = "or_js (get_prop target key) (JObj [])"
    obtain m where m: "deepMerge ?t fs = Inr (JObj m)"
      using deepMerge_keys_total[OF or_js_not_nullish, of "get_prop target key" "[]" fs "map fst fs" "own_props ?t"]
      by (auto simp: deepMerge_def)
    have "merged_property target source key = JObj m"
      using that by (simp add: merged_property_def get_prop_JObj m)
    with mem[OF that] m show ?thesis by (simp add: look)
  qed
  have val: "map_of r key = Some v"
    if "map_of source key = Some v \<and> (\<forall>fs. v \<noteq> JObj fs)" for key v
  proof -
    from that have "merged_property target source key = v"
      by (cases v) (simp_all add: merged_property_def get_prop_JObj)
    with that mem[of key v] show ?thesis by (simp add: look)
  qed
  have dm: "deepMerge target source = Inr (JObj r)"
    using r by (simp add: deepMerge_def)
  then have "new_ApiClient target source = Inr \<lparr>config = JObj r\<rparr>"
    and "updateConfig \<lparr>config = target\<rparr> source = Inr \<lparr>config = JObj r\<rparr>"
    by (simp_all add: new_ApiClient_def updateConfig_def)
  with dm none obj val show ?thesis
    by blast
qed

theorem deepMerge_merges_keywise_witness:
  "\<not> nullish example_target
   \<and> (\<exists>r. deepMerge example_target example_update = Inr (JObj r)
         \<and> map_of r ''apiKey'' = Some (JStr ''k'')
         \<and> map_of r ''timeout'' = Some (JNum 15000)
         \<and> map_of r ''retry'' = Some (JObj [(''attempts'', JNum 3), (''delay'', JNum 50)])
         \<and> map_of r ''tags'' = Some (JArr [JStr ''a'']))"
proof -
  have nn: "\<not> nullish example_target"
    by (simp add: example_target_def nullish_def)
  obtain r where r: "deepMerge example_target example_update = Inr (JObj r)"
    and "new_ApiClient example_target example_update = Inr \<lparr>config = JObj r\<rparr>"
    and "updateConfig \<lparr>config = example_target\<rparr> example_update = Inr \<lparr>config = JObj r\<rparr>"
    and k: "\<And>key. (map_of example_update key = None \<longrightarrow>
                     map_of r key = map_of (own_props example_target) key)
        \<and> (\<forall>fs. map_of example_update key = Some (JObj fs) \<longrightarrow>
              (\<exists>merged. deepMerge (or_js (get_prop example_target key) (JObj [])) fs = Inr merged
                  \<and> map_of r key = Some merged))
        \<and> (\<forall>v. map_of example_update key = Some v \<and> (\<forall>fs. v \<noteq> JObj fs) \<longrightarrow>
              map_of r key = Some v)"
    using deepMerge_merges_keywise [OF nn, of example_update] by blast
  have nested: "deepMerge (or_js (get_prop example_target ''retry'') (JObj [])) [(''delay'', JNum 50)] =
      Inr (JObj [(''attempts'', JNum 3), (''delay'', JNum 50)])"
    by (simp add: deepMerge_def example_target_def get_prop_def or_js_def nullish_def)
  have "map_of r ''apiKey'' = Some (JStr ''k'')"
    using k[of "''apiKey''"] by (simp add: example_update_def example_target_def)
  moreover have "map_of r ''timeout'' = Some (JNum 15000)"
    using k[of "''timeout''"] by (simp add: example_update_def)
  moreover have "map_of r ''retry'' = Some (JObj [(''attempts'', JNum 3), (''delay'', JNum 50)])"
    using k[of "''retry''"] nested by (simp add: example_update_def)
  moreover have "map_of r ''tags'' = Some (JArr [JStr ''a''])"
    using k[of "''tags''"] by (simp add: example_update_def)
  ultimately show ?thesis using nn r by blast
qed

text \<open>
  C10. \<^verbatim>\<open>getConfig\<close> returns a shallow copy: a new object that is not the stored one and has
  the stored properties. Whatever properties the caller then assigns or deletes on the
  returned object, every object that existed before the call, the stored configuration
  among them, is unchanged, and a later \<^verbatim>\<open>getConfig\<close> again returns the stored properties.
  Two calls in a row return two different objects with equal properties. When no property
  of the stored configuration refers to an object, as its type has it, no assignment
  through the returned object has a target other than the returned object itself.
\<close>

theorem getConfig_defensive_copy:
  assumes "config_ref this < length h"
  shows "case getConfig h this of (a, h1) \<Rightarrow>
           a \<noteq> config_ref this
         \<and> h1 ! a = h ! config_ref this
         \<and> (\<forall>p<length h. fold (mutate a) ms h1 ! p = h ! p)
         \<and> (case getConfig (fold (mutate a) ms h1) this of (b, h2) \<Rightarrow>
               b \<noteq> a \<and> h2 ! b = h ! config_ref this)
         \<and> (case getConfig h1 this of (b, h2) \<Rightarrow> b \<noteq> a \<and> h2 ! b = h2 ! a)
         \<and> ((\<forall>b. VRef b \<notin> snd ` set (h ! config_ref this)) \<longrightarrow>
               (\<forall>path k v. path \<noteq> [] \<longrightarrow> assign_through h1 a path k v = None))"
proof -
  let ?c = "config_ref this"
  let ?a = "length h"
  let ?h1 = "h @ [h ! ?c]"
  let ?m = "fold (mutate ?a) ms ?h1"
  have frame: "?m ! p = h ! p" if "p < length h" for p
  proof -
    from that have "p \<noteq> ?a" by simp
    then have "?m ! p = ?h1 ! p" by (rule mutations_frame)
    also have "\<dots> = h ! p" using that by (simp add: nth_append)
    finally show ?thesis .
  qed
  have len: "length ?m = Suc ?a" by (simp add: length_mutations)
  have h1c: "?h1 ! ?c = h ! ?c" using assms by (simp add: nth_append)
  have flat: "assign_through ?h1 ?a path k v = None"
    if primitive: "\<forall>b. VRef b \<notin> snd ` set (h ! ?c)" and nonempty: "path \<noteq> []"
    for path k v
  proof -
    obtain p ps where path: "path = p # ps"
      using nonempty by (cases path) auto
    have "map_of (h ! ?c) p \<noteq> Some (VRef b)" for b
    proof
      assume "map_of (h ! ?c) p = Some (VRef b)"
      then have "(p, VRef b) \<in> set (h ! ?c)" by (rule map_of_SomeD)
      then have "VRef b \<in> snd ` set (h ! ?c)" by force
      with primitive show False by blast
    qed
    then have "follow ?h1 ?a (p # ps) = None"
      by (auto split: option.splits ref_val.splits)
    then show ?thesis by (simp add: assign_through_def path)
  qed
  show ?thesis
    unfolding getConfig_def prod.case
  proof (intro conjI allI impI)
    show "?a \<noteq> ?c" using assms by simp
    show "?h1 ! ?a = h ! ?c" by simp
    show "?m ! p = h ! p" if "p < length h" for p using that by (rule frame)
    show "length ?m \<noteq> ?a" using len by simp
    show "(?m @ [?m ! ?c]) ! length ?m = h ! ?c"
      by (simp only: nth_append_length frame[OF assms])
    show "length ?h1 \<noteq> ?a" by simp
    have "(?h1 @ [?h1 ! ?c]) ! length ?h1 = ?h1 ! ?c"
      by (simp only: nth_append_length)
    moreover have "(?h1 @ [?h1 ! ?c]) ! ?a = h ! ?c"
      by (simp add: nth_append)
    ultimately show "(?h1 @ [?h1 ! ?c]) ! length ?h1 = (?h1 @ [?h1 ! ?c]) ! ?a"
      using h1c by simp
    show "assign_through ?h1 ?a path k v = None"
      if "\<forall>b. VRef b \<notin> snd ` set (h ! ?c)" and "path \<noteq> []" for path k v
      using that by (rule flat)
  qed
qed

theorem getConfig_defensive_copy_witness:
  "config_ref example_client < length example_heap
   \<and> fst (getConfig example_heap example_client) = 1
   \<and> fold (mutate 1) [SetProp ''timeout'' (VNum 1), DeleteProp ''apiKey'']
        (snd (getConfig example_heap example_client)) ! 1 = [(''timeout'', VNum 1)]
   \<and> fold (mutate 1) [SetProp ''timeout'' (VNum 1), DeleteProp ''apiKey'']
        (snd (getConfig example_heap example_client)) ! config_ref example_client =
      [(''apiKey'', VStr ''k''), (''timeout'', VNum 30000)]
   \<and> assign_through (snd (getConfig example_heap example_client)) 1 [''timeout''] ''x'' (VNum 1) =
      None"
proof -
  let ?ms = "[SetProp ''timeout'' (VNum 1), DeleteProp ''apiKey'']"
  let ?h1 = "[[(''apiKey'', VStr ''k''), (''timeout'', VNum 30000)],
              [(''apiKey'', VStr ''k''), (''timeout'', VNum 30000)]]"
  have v: "config_ref example_client < length example_heap"
    by (simp add: example_client_def example_heap_def)
  have g: "getConfig example_heap example_client = (1, ?h1)"
    by (simp add: getConfig_def example_client_def example_heap_def)
  have stored: "example_heap ! config_ref example_client =
          [(''apiKey'', VStr ''k''), (''timeout'', VNum 30000)]"
    by (simp add: example_client_def example_heap_def)
  have flat: "\<forall>b. VRef b \<notin> snd ` set (example_heap ! config_ref example_client)"
    by (simp add: stored)
  note t = getConfig_defensive_copy [OF v, of ?ms, unfolded g prod.case]
  have "\<forall>p<length example_heap. fold (mutate 1) ?ms ?h1 ! p = example_heap ! p"
    using t by blast
  then have kept: "fold (mutate 1) ?ms ?h1 ! config_ref example_client =
          example_heap ! config_ref example_client"
    using v by blast
  have "\<forall>path k v. path \<noteq> [] \<longrightarrow> assign_through ?h1 1 path k v = None"
    using t flat by blast
  then have none: "assign_through ?h1 1 [''timeout''] ''x'' (VNum 1) = None"
    by blast
  have changed: "fold (mutate 1) ?ms ?h1 ! 1 = [(''timeout'', VNum 1)]"
    by (simp add: AList.delete_eq)
  show ?thesis
    unfolding g fst_conv snd_conv
    using v kept stored changed none by (simp only: simp_thms)
qed

text \<open>
  An object nested in the stored configuration is shared with the copy. The assignment
  \<^verbatim>\<open>copy.retry.delay = 0\<close> on the object that \<^verbatim>\<open>getConfig\<close> returned changes the value of the
  stored configuration, and a later \<^verbatim>\<open>getConfig\<close> returns the changed value.
\<close>

theorem nested_object_shared_counterexample:
  "getConfig example_nested_heap example_client =
     (2, [[(''apiKey'', VStr ''k''), (''retry'', VRef 1)],
          [(''attempts'', VNum 3), (''delay'', VNum 50)],
          [(''apiKey'', VStr ''k''), (''retry'', VRef 1)]])
   \<and> deep_value 2 example_nested_heap (VRef (config_ref example_client)) =
       JObj [(''apiKey'', JStr ''k''),
             (''retry'', JObj [(''attempts'', JNum 3), (''delay'', JNum 50)])]
   \<and> assign_through (snd (getConfig example_nested_heap example_client))
         (fst (getConfig example_nested_heap example_client)) [''retry''] ''delay'' (VNum 0) =
       Some [[(''apiKey'', VStr ''k''), (''retry'', VRef 1)],
             [(''attempts'', VNum 3), (''delay'', VNum 0)],
             [(''apiKey'', VStr ''k''), (''retry'', VRef 1)]]
   \<and> deep_value 2
         [[(''apiKey'', VStr ''k''), (''retry'', VRef 1)],
          [(''attempts'', VNum 3), (''delay'', VNum 0)],
          [(''apiKey'', VStr ''k''), (''retry'', VRef 1)]]
         (VRef (config_ref example_client)) =
       JObj [(''apiKey'', JStr ''k''),
             (''retry'', JObj [(''attempts'', JNum 3), (''delay'', JNum 0)])]
   \<and> deep_value 2
         (snd (getConfig
            [[(''apiKey'', VStr ''k''), (''retry'', VRef 1)],
             [(''attempts'', VNum 3), (''delay'', VNum 0)],
             [(''apiKey'', VStr ''k''), (''retry'', VRef 1)]] example_client))
         (VRef (fst (getConfig
            [[(''apiKey'', VStr ''k''), (''retry'', VRef 1)],
             [(''attempts'', VNum 3), (''delay'', VNum 0)],
             [(''apiKey'', VStr ''k''), (''retry'', VRef 1)]] example_client))) =
       JObj [(''apiKey'', JStr ''k''),
             (''retry'', JObj [(''attempts'', JNum 3), (''delay'', JNum 0)])]"
  by (simp add: getConfig_def example_nested_heap_def example_client_def assign_through_def
        numeral_2_eq_2 numeral_3_eq_3)

end
